theory Spec2Isabelle
  imports Main "HOL-Library.Word"
begin

unbundle bit_operations_syntax

section \<open>github-release-get: errors\<close>

text \<open>
  The command downloads one asset of the latest published release of a GitHub repository
  into the current directory (\<^verbatim>\<open>main.go\<close>). \<^verbatim>\<open>run\<close> returns a Go \<^verbatim>\<open>error\<close>; the model
  keeps one constructor for every error the function builds itself and one,
  \<open>ErrExternal\<close>, for the errors of library calls that it returns unchanged (the text of
  the library's error is the argument).
  \<^item> \<open>ErrMandatoryFlags\<close>: \<^verbatim>\<open>"one or more mandatory flags missing"\<close> (line 52);
  \<^item> \<open>ErrBadPattern\<close>: \<^verbatim>\<open>path.ErrBadPattern\<close>, returned at line 77;
  \<^item> \<open>ErrEmptyAssetName\<close>: \<^verbatim>\<open>"empty asset name"\<close> (line 86);
  \<^item> \<open>ErrAlreadyExists dst\<close>: \<^verbatim>\<open>"file %q already exists"\<close> (line 90);
  \<^item> \<open>ErrNoMatch pattern names\<close>:
    \<^verbatim>\<open>"no assets matching pattern %q found, assets are: %v"\<close> (line 97);
  \<^item> \<open>ErrInvalidStatus status\<close>: \<^verbatim>\<open>"invalid status: %s"\<close> (line 127);
  \<^item> \<open>ErrNoLink\<close>:
    \<^verbatim>\<open>"cannot download asset release, don't have sensible link for that"\<close> (line 133).
\<close>

datatype error =
    ErrMandatoryFlags
  | ErrExternal string
  | ErrBadPattern
  | ErrEmptyAssetName
  | ErrAlreadyExists string
  | ErrNoMatch string "string list"
  | ErrInvalidStatus string
  | ErrNoLink

section \<open>The pattern engine: Go's \<^verbatim>\<open>path.Match\<close>\<close>

text \<open>
  Line 75 calls \<^verbatim>\<open>path.Match(args.Pattern, name)\<close> of Go's standard library. The functions
  below follow \<^verbatim>\<open>path/match.go\<close> (\<^verbatim>\<open>Match\<close>, \<^verbatim>\<open>scanChunk\<close>, \<^verbatim>\<open>matchChunk\<close>, \<^verbatim>\<open>getEsc\<close>) and
  \<^verbatim>\<open>utf8.DecodeRuneInString\<close> as they are since Go 1.16. A Go string is a sequence of bytes,
  here a \<open>string\<close>; a rune is a natural number.
\<close>

definition RuneError :: nat where
  "RuneError = 65533"

text \<open>
  \<^verbatim>\<open>utf8.DecodeRuneInString\<close>: the first rune of the string and its width in bytes;
  \<open>(RuneError, 0)\<close> for the empty string, \<open>(RuneError, 1)\<close> for an invalid encoding. The
  tables \<^verbatim>\<open>first\<close> and \<^verbatim>\<open>acceptRanges\<close> of the library are written out as comparisons
  on the first byte.
\<close>

fun DecodeRuneInString :: "string \<Rightarrow> nat \<times> nat" where
  "DecodeRuneInString [] = (RuneError, 0)"
| "DecodeRuneInString (c0 # cs) =
     (let s0 = (of_char c0 :: nat) in
      if s0 < 128 then (s0, 1)
      else if s0 < 194 \<or> 244 < s0 then (RuneError, 1)
      else
        let sz = (if s0 < 224 then 2 else if s0 < 240 then 3 else (4::nat));
            lo = (if s0 = 224 then 160 else if s0 = 240 then 144 else (128::nat));
            hi = (if s0 = 237 then 159 else if s0 = 244 then 143 else (191::nat))
        in
          if length (c0 # cs) < sz then (RuneError, 1)
          else
            let s1 = (of_char (cs ! 0) :: nat) in
            if s1 < lo \<or> hi < s1 then (RuneError, 1)
            else if sz \<le> 2 then (push_bit 6 (s0 AND 31) OR (s1 AND 63), 2)
            else
              let s2 = (of_char (cs ! 1) :: nat) in
              if s2 < 128 \<or> 191 < s2 then (RuneError, 1)
              else if sz \<le> 3 then
                (push_bit 12 (s0 AND 15) OR push_bit 6 (s1 AND 63) OR (s2 AND 63), 3)
              else
                let s3 = (of_char (cs ! 2) :: nat) in
                if s3 < 128 \<or> 191 < s3 then (RuneError, 1)
                else (push_bit 18 (s0 AND 7) OR push_bit 12 (s1 AND 63)
                        OR push_bit 6 (s2 AND 63) OR (s3 AND 63), 4))"

text \<open>
  \<^verbatim>\<open>getEsc\<close>: a possibly escaped character of a character class, and the chunk after it.
  \<open>CHR 0x5C\<close> is the backslash.
\<close>

definition getEsc :: "string \<Rightarrow> error + (nat \<times> string)" where
  "getEsc chunk =
     (if chunk = [] \<or> hd chunk = CHR ''-'' \<or> hd chunk = CHR '']'' then Inl ErrBadPattern
      else
        let chunk1 = (if hd chunk = CHR 0x5C then tl chunk else chunk) in
        if chunk1 = [] then Inl ErrBadPattern
        else
          case DecodeRuneInString chunk1 of
            (r, n) \<Rightarrow>
              if r = RuneError \<and> n = 1 then Inl ErrBadPattern
              else if drop n chunk1 = [] then Inl ErrBadPattern
              else Inr (r, drop n chunk1))"

lemma DecodeRuneInString_size: "s \<noteq> [] \<Longrightarrow> 0 < snd (DecodeRuneInString s)"
  by (cases s) (simp_all add: Let_def)

lemma getEsc_shorter:
  assumes "getEsc chunk = Inr (r, rest)"
  shows "length rest < length chunk" and "rest \<noteq> []"
proof -
  from assms obtain c1 where c1: "c1 \<noteq> []" "length c1 \<le> length chunk"
      and rest: "rest = drop (snd (DecodeRuneInString c1)) c1" "rest \<noteq> []"
    by (auto simp: getEsc_def Let_def split: if_splits prod.splits)
  from DecodeRuneInString_size [OF c1(1)] c1 rest
  show "length rest < length chunk" by simp
  show "rest \<noteq> []" by (rule rest(2))
qed

text \<open>
  The loop over the ranges of a character class in \<^verbatim>\<open>matchChunk\<close> (\<^verbatim>\<open>for { ... }\<close> after
  \<^verbatim>\<open>nrange := 0\<close>): it ends at a \<^verbatim>\<open>]\<close> that follows at least one range and returns whether
  the rune \<open>r\<close> was in one of them, with the chunk after the class. After a successful
  \<open>getEsc\<close> the chunk is not empty (\<open>getEsc_shorter\<close>), so \<^verbatim>\<open>chunk[0]\<close> is in range.
\<close>

function class_ranges :: "nat \<Rightarrow> string \<Rightarrow> bool \<Rightarrow> nat \<Rightarrow> error + (bool \<times> string)" where
  "class_ranges r chunk match nrange =
     (if chunk \<noteq> [] \<and> hd chunk = CHR '']'' \<and> 0 < nrange then Inr (match, tl chunk)
      else
        case getEsc chunk of
          Inl e \<Rightarrow> Inl e
        | Inr (lo, chunk1) \<Rightarrow>
            if hd chunk1 = CHR ''-'' then
              (case getEsc (tl chunk1) of
                 Inl e \<Rightarrow> Inl e
               | Inr (hi, chunk2) \<Rightarrow>
                   class_ranges r chunk2 (match \<or> (lo \<le> r \<and> r \<le> hi)) (nrange + 1))
            else class_ranges r chunk1 (match \<or> (lo \<le> r \<and> r \<le> lo)) (nrange + 1))"
  by pat_completeness auto
termination
proof (relation "measure (\<lambda>(r, chunk, match, nrange). length chunk)", goal_cases)
  case 1
  show ?case by simp
next
  case (2 r chunk match nrange x2 lo chunk1 x2a hi chunk2)
  then have a: "getEsc chunk = Inr (lo, chunk1)" and b: "getEsc (tl chunk1) = Inr (hi, chunk2)"
    by simp_all
  from getEsc_shorter(1) [OF a] getEsc_shorter(1) [OF b]
  show ?case by (cases chunk1) simp_all
next
  case (3 r chunk match nrange x2 lo chunk1)
  then have a: "getEsc chunk = Inr (lo, chunk1)" by simp
  from getEsc_shorter(1) [OF a] show ?case by simp
qed

declare class_ranges.simps [simp del]

lemma class_ranges_stop:
  "chunk \<noteq> [] \<and> hd chunk = CHR '']'' \<and> 0 < n \<Longrightarrow> class_ranges r chunk m n = Inr (m, tl chunk)"
  by (subst class_ranges.simps) simp

lemma class_ranges_esc_error:
  "\<not> (chunk \<noteq> [] \<and> hd chunk = CHR '']'' \<and> 0 < n) \<Longrightarrow> getEsc chunk = Inl e
    \<Longrightarrow> class_ranges r chunk m n = Inl e"
  by (subst class_ranges.simps, subst if_not_P, assumption, simp)

lemma class_ranges_single:
  "\<not> (chunk \<noteq> [] \<and> hd chunk = CHR '']'' \<and> 0 < n) \<Longrightarrow> getEsc chunk = Inr (lo, chunk1)
    \<Longrightarrow> hd chunk1 \<noteq> CHR ''-''
    \<Longrightarrow> class_ranges r chunk m n = class_ranges r chunk1 (m \<or> (lo \<le> r \<and> r \<le> lo)) (n + 1)"
  by (subst class_ranges.simps, subst if_not_P, assumption, simp)

lemma class_ranges_hi_error:
  "\<not> (chunk \<noteq> [] \<and> hd chunk = CHR '']'' \<and> 0 < n) \<Longrightarrow> getEsc chunk = Inr (lo, chunk1)
    \<Longrightarrow> hd chunk1 = CHR ''-'' \<Longrightarrow> getEsc (tl chunk1) = Inl e
    \<Longrightarrow> class_ranges r chunk m n = Inl e"
  by (subst class_ranges.simps, subst if_not_P, assumption, simp)

lemma class_ranges_range:
  "\<not> (chunk \<noteq> [] \<and> hd chunk = CHR '']'' \<and> 0 < n) \<Longrightarrow> getEsc chunk = Inr (lo, chunk1)
    \<Longrightarrow> hd chunk1 = CHR ''-'' \<Longrightarrow> getEsc (tl chunk1) = Inr (hi, chunk2)
    \<Longrightarrow> class_ranges r chunk m n = class_ranges r chunk2 (m \<or> (lo \<le> r \<and> r \<le> hi)) (n + 1)"
  by (subst class_ranges.simps, subst if_not_P, assumption, simp)

lemma class_ranges_shorter:
  "class_ranges r chunk match nrange = Inr (m, rest) \<Longrightarrow> length rest < length chunk"
proof (induction r chunk match nrange rule: class_ranges.induct)
  case (1 r chunk match nrange)
  show ?case
  proof (cases "chunk \<noteq> [] \<and> hd chunk = CHR '']'' \<and> 0 < nrange")
    case True
    from "1.prems" [unfolded class_ranges_stop [OF True]] True show ?thesis
      by (cases chunk) auto
  next
    case stop: False
    show ?thesis
    proof (cases "getEsc chunk")
      case (Inl e)
      from "1.prems" [unfolded class_ranges_esc_error [OF stop Inl]] show ?thesis by simp
    next
      case (Inr p)
      obtain lo chunk1 where p: "p = (lo, chunk1)" by (cases p)
      note a = Inr [unfolded p]
      note sh1 = getEsc_shorter [OF a]
      show ?thesis
      proof (cases "hd chunk1 = CHR ''-''")
        case dash: True
        show ?thesis
        proof (cases "getEsc (tl chunk1)")
          case (Inl e)
          from "1.prems" [unfolded class_ranges_hi_error [OF stop a dash Inl]] show ?thesis by simp
        next
          case (Inr q)
          obtain hi chunk2 where q: "q = (hi, chunk2)" by (cases q)
          note b = Inr [unfolded q]
          from "1.IH"(1) [OF stop a refl dash b refl
              "1.prems" [unfolded class_ranges_range [OF stop a dash b]]]
            getEsc_shorter(1) [OF b] sh1
          show ?thesis by (cases chunk1) simp_all
        qed
      next
        case nodash: False
        from "1.IH"(2) [OF stop a refl nodash
            "1.prems" [unfolded class_ranges_single [OF stop a nodash]]] sh1
        show ?thesis by simp
      qed
    qed
  qed
qed

text \<open>
  \<^verbatim>\<open>matchChunk\<close>: does the chunk (literals, \<^verbatim>\<open>?\<close>, character classes) match a prefix of \<open>s\<close>?
  The result is the rest of \<open>s\<close> and \<^verbatim>\<open>ok\<close>. The loop keeps \<^verbatim>\<open>failed\<close>, the rest of the chunk
  and the rest of \<open>s\<close>; after a mismatch it goes on through the chunk to find syntax
  errors, without reading \<open>s\<close>. Where the source reads \<^verbatim>\<open>s[0]\<close>, \<open>s\<close> is not empty, because
  \<^verbatim>\<open>failed\<close> was set at the head of the iteration otherwise.
\<close>

function matchChunk_loop :: "bool \<Rightarrow> string \<Rightarrow> string \<Rightarrow> error + (string \<times> bool)" where
  "matchChunk_loop failed [] s = (if failed then Inr ([], False) else Inr (s, True))"
| "matchChunk_loop failed (c # chunk) s =
     (let failed1 = (failed \<or> s = []) in
      if c = CHR ''['' then
        (let r = (if failed1 then 0 else fst (DecodeRuneInString s));
             s1 = (if failed1 then s else drop (snd (DecodeRuneInString s)) s);
             negated = (chunk \<noteq> [] \<and> hd chunk = CHR ''^'');
             chunk1 = (if negated then tl chunk else chunk)
         in case class_ranges r chunk1 False 0 of
              Inl e \<Rightarrow> Inl e
            | Inr (match, chunk2) \<Rightarrow>
                matchChunk_loop (failed1 \<or> match = negated) chunk2 s1)
      else if c = CHR ''?'' then
        (if failed1 then matchChunk_loop failed1 chunk s
         else matchChunk_loop (hd s = CHR ''/'') chunk (drop (snd (DecodeRuneInString s)) s))
      else if c = CHR 0x5C then
        (case chunk of
           [] \<Rightarrow> Inl ErrBadPattern
         | c1 # chunk1 \<Rightarrow>
             if failed1 then matchChunk_loop failed1 chunk1 s
             else matchChunk_loop (c1 \<noteq> hd s) chunk1 (tl s))
      else
        (if failed1 then matchChunk_loop failed1 chunk s
         else matchChunk_loop (c \<noteq> hd s) chunk (tl s)))"
  by pat_completeness auto
termination
proof (relation "measure (\<lambda>(failed, chunk, s). length chunk)", goal_cases)
  case (2 failed c chunk s failed1 r s1 negated chunk1 x2 match chunk2)
  then have "class_ranges r chunk1 False 0 = Inr (match, chunk2)" by simp
  from class_ranges_shorter [OF this] 2(6) show ?case
    by (cases chunk) (auto split: if_splits)
qed simp_all

definition matchChunk :: "string \<Rightarrow> string \<Rightarrow> error + (string \<times> bool)" where
  "matchChunk chunk s = matchChunk_loop False chunk s"

text \<open>
  \<^verbatim>\<open>scanChunk\<close>: the next chunk of the pattern, a string without an unbracketed star,
  possibly preceded by stars. \<open>scan_index\<close> is the loop labelled \<^verbatim>\<open>Scan\<close>: the index at
  which the chunk ends.
\<close>

fun scan_index :: "bool \<Rightarrow> string \<Rightarrow> nat" where
  "scan_index inrange [] = 0"
| "scan_index inrange (c # cs) =
     (if c = CHR 0x5C then
        (case cs of [] \<Rightarrow> 1 | d # ds \<Rightarrow> 2 + scan_index inrange ds)
      else if c = CHR ''['' then 1 + scan_index True cs
      else if c = CHR '']'' then 1 + scan_index False cs
      else if c = CHR ''*'' then (if inrange then 1 + scan_index inrange cs else 0)
      else 1 + scan_index inrange cs)"

definition scanChunk :: "string \<Rightarrow> bool \<times> string \<times> string" where
  "scanChunk pattern =
     (let star = (pattern \<noteq> [] \<and> hd pattern = CHR ''*'');
          pattern1 = dropWhile (\<lambda>c. c = CHR ''*'') pattern;
          i = scan_index False pattern1
      in (star, take i pattern1, drop i pattern1))"

lemma scan_index_pos: "c \<noteq> CHR ''*'' \<Longrightarrow> 0 < scan_index inrange (c # cs)"
  by (cases cs) simp_all

lemma scanChunk_shorter:
  assumes "pattern \<noteq> []" and "scanChunk pattern = (star, chunk, rest)"
  shows "length rest < length pattern"
proof (cases "hd pattern = CHR ''*''")
  case True
  with assms(1) have "length (dropWhile (\<lambda>c. c = CHR ''*'') pattern) < length pattern"
    by (cases pattern) (simp_all add: le_imp_less_Suc length_dropWhile_le)
  with assms(2) show ?thesis by (auto simp: scanChunk_def Let_def)
next
  case False
  with assms(1) obtain c cs where p: "pattern = c # cs" "c \<noteq> CHR ''*''"
    by (cases pattern) auto
  from scan_index_pos [OF p(2), of False cs] p assms(2) show ?thesis
    by (auto simp: scanChunk_def Let_def)
qed

text \<open>
  The inner loop of \<^verbatim>\<open>Match\<close> after a star: try the chunk at \<^verbatim>\<open>name[i+1:]\<close> for each \<open>i\<close>
  up to the first \<^verbatim>\<open>/\<close>. \<open>SkipTo t\<close> is \<^verbatim>\<open>continue Pattern\<close> with \<^verbatim>\<open>name = t\<close>, \<open>SkipErr\<close> the
  return of an error, \<open>SkipNone\<close> the end of the loop without a match.
\<close>

datatype skip = SkipNone | SkipErr error | SkipTo string

fun star_skip :: "string \<Rightarrow> string \<Rightarrow> string \<Rightarrow> skip" where
  "star_skip chunk pattern [] = SkipNone"
| "star_skip chunk pattern (c # name) =
     (if c = CHR ''/'' then SkipNone
      else
        case matchChunk chunk name of
          Inl e \<Rightarrow> SkipErr e
        | Inr (t, ok) \<Rightarrow>
            if ok then (if pattern = [] \<and> t \<noteq> [] then star_skip chunk pattern name else SkipTo t)
            else star_skip chunk pattern name)"

text \<open>
  The last loop of \<^verbatim>\<open>Match\<close>: before \<^verbatim>\<open>false, nil\<close> is returned, the rest of the pattern
  is checked for syntax errors.
\<close>

function check_rest :: "string \<Rightarrow> error + bool" where
  "check_rest pattern =
     (if pattern = [] then Inr False
      else
        case scanChunk pattern of
          (star, chunk, rest) \<Rightarrow>
            (case matchChunk chunk [] of
               Inl e \<Rightarrow> Inl e
             | Inr res \<Rightarrow> check_rest rest))"
  by pat_completeness auto
termination
  by (relation "measure length") (auto dest: scanChunk_shorter [OF _ sym])

text \<open>\<^verbatim>\<open>path.Match(pattern, name)\<close>: \<open>Inr matched\<close>, or \<open>Inl ErrBadPattern\<close>.\<close>

function path_Match :: "string \<Rightarrow> string \<Rightarrow> error + bool" where
  "path_Match pattern name =
     (if pattern = [] then Inr (name = [])
      else
        case scanChunk pattern of
          (star, chunk, rest) \<Rightarrow>
            if star \<and> chunk = [] then Inr (CHR ''/'' \<notin> set name)
            else
              case matchChunk chunk name of
                Inl e \<Rightarrow> Inl e
              | Inr (t, ok) \<Rightarrow>
                  if ok \<and> (t = [] \<or> rest \<noteq> []) then path_Match rest t
                  else if star then
                    (case star_skip chunk rest name of
                       SkipTo t1 \<Rightarrow> path_Match rest t1
                     | SkipErr e \<Rightarrow> Inl e
                     | SkipNone \<Rightarrow> check_rest rest)
                  else check_rest rest)"
  by pat_completeness auto
termination
  by (relation "measure (\<lambda>(pattern, name). length pattern)")
     (auto dest: scanChunk_shorter [OF _ sym])

declare check_rest.simps [simp del] path_Match.simps [simp del]

section \<open>The destination name: \<^verbatim>\<open>filepath.Base(filepath.FromSlash(name))\<close>\<close>

text \<open>
  Line 88. The model is the Unix build of \<^verbatim>\<open>path/filepath\<close>: the separator is \<^verbatim>\<open>/\<close>, so
  \<^verbatim>\<open>FromSlash\<close> returns its argument and there are no volume names. \<^verbatim>\<open>Base\<close> returns \<^verbatim>\<open>"."\<close>
  for the empty path, strips trailing separators, keeps what follows the last separator
  left, and returns \<^verbatim>\<open>"/"\<close> when nothing is left.
\<close>

definition filepath_FromSlash :: "string \<Rightarrow> string" where
  "filepath_FromSlash path = path"

definition filepath_Base :: "string \<Rightarrow> string" where
  "filepath_Base path =
     (if path = [] then ''.''
      else
        let path1 = rev (dropWhile (\<lambda>c. c = CHR ''/'') (rev path));
            path2 = rev (takeWhile (\<lambda>c. c \<noteq> CHR ''/'') (rev path1))
        in if path2 = [] then ''/'' else path2)"

section \<open>Arguments and release data\<close>

type_synonym int64 = "64 word"
type_synonym Duration = "64 word"
type_synonym bytes = string

text \<open>\<^verbatim>\<open>time.Duration\<close> is a signed 64-bit count of nanoseconds.\<close>

definition time_Minute :: Duration where
  "time_Minute = 60000000000"

text \<open>
  \<^verbatim>\<open>github.ReleaseAsset\<close> (go-github v25) has pointer fields; \<^verbatim>\<open>GetID\<close> and \<^verbatim>\<open>GetName\<close>
  return the zero value for a nil pointer.
\<close>

record ReleaseAsset =
  ID :: "int64 option"
  Name :: "string option"

definition GetID :: "ReleaseAsset \<Rightarrow> int64" where
  "GetID a = (case ID a of None \<Rightarrow> 0 | Some i \<Rightarrow> i)"

definition GetName :: "ReleaseAsset \<Rightarrow> string" where
  "GetName a = (case Name a of None \<Rightarrow> [] | Some n \<Rightarrow> n)"

record runArgs =
  Owner :: string
  Repo :: string
  Pattern :: string
  Timeout :: Duration
  Token :: string

text \<open>
  \<^verbatim>\<open>main\<close> (lines 28 to 38) fills \<^verbatim>\<open>Timeout\<close> with one minute and \<^verbatim>\<open>Token\<close> from the
  environment variable \<^verbatim>\<open>GITHUB_TOKEN\<close>, then \<^verbatim>\<open>autoflags.Parse\<close> overwrites the field of
  every flag given on the command line. \<open>flags\<close> holds the values of the flags that were
  given, already parsed.
\<close>

record flags =
  flag_owner :: "string option"
  flag_repo :: "string option"
  flag_pattern :: "string option"
  flag_timeout :: "Duration option"

definition autoflags_Parse :: "flags \<Rightarrow> runArgs \<Rightarrow> runArgs" where
  "autoflags_Parse fl args =
     args\<lparr>Owner := (case flag_owner fl of None \<Rightarrow> Owner args | Some v \<Rightarrow> v),
          Repo := (case flag_repo fl of None \<Rightarrow> Repo args | Some v \<Rightarrow> v),
          Pattern := (case flag_pattern fl of None \<Rightarrow> Pattern args | Some v \<Rightarrow> v),
          Timeout := (case flag_timeout fl of None \<Rightarrow> Timeout args | Some v \<Rightarrow> v)\<rparr>"

definition main_args :: "string \<Rightarrow> flags \<Rightarrow> runArgs" where
  "main_args github_token fl =
     autoflags_Parse fl
       \<lparr>Owner = [], Repo = [], Pattern = [], Timeout = time_Minute, Token = github_token\<rparr>"

section \<open>The world outside the program\<close>

text \<open>
  A context is the timeout attached to it: \<open>None\<close> is \<^verbatim>\<open>context.Background()\<close>, \<open>Some d\<close> is
  \<^verbatim>\<open>context.WithTimeout(ctx, d)\<close>. A client is \<^verbatim>\<open>github.NewClient(nil)\<close> or the OAuth2 client
  built from the context and the token (lines 59 to 66).
\<close>

type_synonym ctx = "Duration option"

datatype client = NewClient_nil | NewClient_oauth2 ctx string

text \<open>
  A stream is what \<^verbatim>\<open>io.Copy\<close> gets out of a reader: the bytes it transfers, and the error
  that ends the transfer, if any.
\<close>

record stream =
  data :: bytes
  fault :: "string option"

record response =
  StatusCode :: int
  Status :: string
  Body :: stream

text \<open>
  The file system maps a path to what \<^verbatim>\<open>os.Stat\<close> finds there: a regular file with its
  contents, or a directory.
\<close>

datatype node = Regular bytes | Directory

type_synonym filesystem = "string \<rightharpoonup> node"

text \<open>
  Every call of \<^verbatim>\<open>run\<close> to the API client, to the HTTP client and to the file system is
  recorded, in order. \<^verbatim>\<open>DownloadReleaseAsset\<close> and the HTTP request ask for the contents
  of an asset.
\<close>

datatype event =
    GetLatestRelease ctx client string string
  | Stat string
  | DownloadReleaseAsset ctx client string string int64
  | TempFile
  | HttpGet ctx string
  | Rename string string
  | Remove string

fun is_content_request :: "event \<Rightarrow> bool" where
  "is_content_request (DownloadReleaseAsset c cl owner repo i) = True"
| "is_content_request (HttpGet c u) = True"
| "is_content_request ev = False"

text \<open>
  A call to the API client is not yet a request on the network: the two methods of
  \<^verbatim>\<open>client.Repositories\<close> first build the request from owner and repository
  (\<^verbatim>\<open>client.NewRequest\<close>) and return its error without sending anything when that fails,
  as for an owner that is no valid part of a URL. \<open>NotSent\<close> is such an error, \<open>Failed\<close> an
  error that came after the request was handed to the HTTP client. The requests handed to
  an HTTP client, by the library or by \<^verbatim>\<open>run\<close> itself, are recorded apart from the calls.
\<close>

datatype api_error = NotSent string | Failed string

fun api_error_text :: "api_error \<Rightarrow> string" where
  "api_error_text (NotSent e) = e"
| "api_error_text (Failed e) = e"

fun was_sent :: "api_error + 'a \<Rightarrow> bool" where
  "was_sent (Inl (NotSent e)) = False"
| "was_sent (Inl (Failed e)) = True"
| "was_sent (Inr x) = True"

datatype request =
    ReleaseRequest ctx client string string
  | AssetRequest ctx client string string int64
  | GetRequest ctx string

text \<open>
  What the outside answers. \<open>latest_release\<close> and \<open>download_asset\<close> are the two methods of
  \<^verbatim>\<open>client.Repositories\<close>; \<open>download_asset\<close> returns the reader \<^verbatim>\<open>rc\<close> (\<open>None\<close> for nil) and
  the redirect URL \<^verbatim>\<open>u\<close>. \<open>temp_file\<close> is the name \<^verbatim>\<open>ioutil.TempFile\<close> chooses, \<open>new_request\<close>
  the error of \<^verbatim>\<open>http.NewRequest\<close> for a URL, \<open>do_request\<close> the answer of
  \<^verbatim>\<open>http.DefaultClient.Do\<close>, \<open>close_fault\<close> and \<open>rename_fault\<close> the errors of \<^verbatim>\<open>tf.Close\<close> and
  \<^verbatim>\<open>os.Rename\<close>, and \<open>stat_fault\<close> tells for which paths \<^verbatim>\<open>os.Stat\<close> fails for another
  reason than the absence of the file.
\<close>

record world =
  latest_release ::
    "ctx \<Rightarrow> client \<Rightarrow> string \<Rightarrow> string \<Rightarrow> api_error + ReleaseAsset list"
  stat_fault :: "string \<Rightarrow> bool"
  download_asset ::
    "ctx \<Rightarrow> client \<Rightarrow> string \<Rightarrow> string \<Rightarrow> int64
      \<Rightarrow> api_error + (stream option \<times> string)"
  temp_file :: "string + string"
  new_request :: "string \<Rightarrow> string option"
  do_request :: "ctx \<Rightarrow> string \<Rightarrow> string + response"
  close_fault :: "string option"
  rename_fault :: "string \<Rightarrow> string \<Rightarrow> string option"

datatype stat_result = StatOk | StatNotExist | StatOther

definition os_Stat :: "world \<Rightarrow> filesystem \<Rightarrow> string \<Rightarrow> stat_result" where
  "os_Stat w fs p =
     (if stat_fault w p then StatOther else if fs p = None then StatNotExist else StatOk)"

definition os_IsNotExist :: "stat_result \<Rightarrow> bool" where
  "os_IsNotExist r = (r = StatNotExist)"

text \<open>Writing to the open staging file appends to it.\<close>

definition write_file :: "filesystem \<Rightarrow> string \<Rightarrow> bytes \<Rightarrow> filesystem" where
  "write_file fs p bs =
     fs(p \<mapsto> Regular ((case fs p of Some (Regular old) \<Rightarrow> old | _ \<Rightarrow> []) @ bs))"

section \<open>\<^verbatim>\<open>run\<close>\<close>

text \<open>
  What a run leaves behind: the error \<^verbatim>\<open>run\<close> returns (\<open>None\<close> for nil), the file system,
  the calls it made, and the requests that were handed to an HTTP client.
\<close>

record outcome =
  returned :: "error option"
  files :: filesystem
  calls :: "event list"
  requests :: "request list"

text \<open>Lines 54 to 58: a deadline is attached only for a positive timeout.\<close>

definition run_ctx :: "runArgs \<Rightarrow> ctx" where
  "run_ctx args = (if 0 <s Timeout args then Some (Timeout args) else None)"

text \<open>Lines 59 to 66.\<close>

definition new_client :: "ctx \<Rightarrow> string \<Rightarrow> client" where
  "new_client c token = (if token = [] then NewClient_nil else NewClient_oauth2 c token)"

text \<open>
  Lines 71 to 84, the loop over \<^verbatim>\<open>release.Assets\<close> with the variables \<^verbatim>\<open>id\<close> and \<^verbatim>\<open>name\<close>
  (both declared before the loop, so \<^verbatim>\<open>name = asset.GetName()\<close> at line 74 assigns the
  outer variable in every iteration). The result is the error returned from inside the
  loop, or the two variables after it.
\<close>

fun select_asset ::
  "string \<Rightarrow> ReleaseAsset list \<Rightarrow> int64 \<times> string \<Rightarrow> error + (int64 \<times> string)" where
  "select_asset pattern [] (i, name) = Inr (i, name)"
| "select_asset pattern (asset # assets) (i, name) =
     (case path_Match pattern (GetName asset) of
        Inl e \<Rightarrow> Inl e
      | Inr ok \<Rightarrow>
          if ok then Inr (GetID asset, GetName asset)
          else select_asset pattern assets (i, GetName asset))"

text \<open>
  Lines 109 to 134, the \<^verbatim>\<open>switch\<close> that fills the staging file \<open>tf\<close>: from the reader, or
  from the body of a GET request to the redirect URL, or not at all. The request is
  handed to \<^verbatim>\<open>http.DefaultClient\<close> once \<^verbatim>\<open>http.NewRequest\<close> has built it.
\<close>

definition fetch_body ::
  "world \<Rightarrow> ctx \<Rightarrow> filesystem \<Rightarrow> string \<Rightarrow> stream option \<Rightarrow> string \<Rightarrow> outcome" where
  "fetch_body w c fs tf rc u =
     (case rc of
        Some s \<Rightarrow>
          \<lparr>returned = map_option ErrExternal (fault s), files = write_file fs tf (data s),
           calls = [], requests = []\<rparr>
      | None \<Rightarrow>
          if u \<noteq> [] then
            (case new_request w u of
               Some e \<Rightarrow>
                 \<lparr>returned = Some (ErrExternal e), files = fs, calls = [], requests = []\<rparr>
             | None \<Rightarrow>
                 (case do_request w c u of
                    Inl e \<Rightarrow>
                      \<lparr>returned = Some (ErrExternal e), files = fs, calls = [HttpGet c u],
                       requests = [GetRequest c u]\<rparr>
                  | Inr r \<Rightarrow>
                      if StatusCode r \<noteq> 200 then
                        \<lparr>returned = Some (ErrInvalidStatus (Status r)), files = fs,
                         calls = [HttpGet c u], requests = [GetRequest c u]\<rparr>
                      else
                        \<lparr>returned = map_option ErrExternal (fault (Body r)),
                         files = write_file fs tf (data (Body r)),
                         calls = [HttpGet c u], requests = [GetRequest c u]\<rparr>))
          else \<lparr>returned = Some ErrNoLink, files = fs, calls = [], requests = []\<rparr>)"

text \<open>Lines 135 to 138: close the staging file and rename it to the destination.\<close>

definition finalize :: "world \<Rightarrow> filesystem \<Rightarrow> string \<Rightarrow> string \<Rightarrow> outcome" where
  "finalize w fs tf dst =
     (case close_fault w of
        Some e \<Rightarrow> \<lparr>returned = Some (ErrExternal e), files = fs, calls = [], requests = []\<rparr>
      | None \<Rightarrow>
          (case rename_fault w tf dst of
             Some e \<Rightarrow>
               \<lparr>returned = Some (ErrExternal e), files = fs, calls = [Rename tf dst],
                requests = []\<rparr>
           | None \<Rightarrow>
               \<lparr>returned = None, files = (fs(dst := fs tf))(tf := None),
                calls = [Rename tf dst], requests = []\<rparr>))"

text \<open>
  Lines 99 to 138. Once the staging file exists, the deferred \<^verbatim>\<open>os.Remove(tf.Name())\<close> runs
  on every return. The request for the asset is on the network unless the library
  returns before it has sent it.
\<close>

definition download ::
  "world \<Rightarrow> ctx \<Rightarrow> client \<Rightarrow> filesystem \<Rightarrow> runArgs \<Rightarrow> int64 \<Rightarrow> string \<Rightarrow> outcome" where
  "download w c cl fs args i dst =
     (let sent = (if was_sent (download_asset w c cl (Owner args) (Repo args) i)
                  then [AssetRequest c cl (Owner args) (Repo args) i] else [])
      in
        case download_asset w c cl (Owner args) (Repo args) i of
          Inl e \<Rightarrow>
            \<lparr>returned = Some (ErrExternal (api_error_text e)), files = fs,
             calls = [DownloadReleaseAsset c cl (Owner args) (Repo args) i], requests = sent\<rparr>
        | Inr (rc, u) \<Rightarrow>
            (case temp_file w of
               Inl e \<Rightarrow>
                 \<lparr>returned = Some (ErrExternal e), files = fs,
                  calls = [DownloadReleaseAsset c cl (Owner args) (Repo args) i, TempFile],
                  requests = sent\<rparr>
             | Inr tf \<Rightarrow>
                 let body = fetch_body w c (fs(tf \<mapsto> Regular [])) tf rc u;
                     fin = (if returned body = None then finalize w (files body) tf dst
                            else \<lparr>returned = returned body, files = files body, calls = [],
                                  requests = []\<rparr>)
                 in \<lparr>returned = returned fin, files = (files fin)(tf := None),
                     calls = [DownloadReleaseAsset c cl (Owner args) (Repo args) i, TempFile]
                              @ calls body @ calls fin @ [Remove tf],
                     requests = sent @ requests body\<rparr>))"

text \<open>
  \<^verbatim>\<open>run\<close>, lines 50 to 139, called with \<^verbatim>\<open>context.Background()\<close> as \<^verbatim>\<open>main\<close> does. The
  file system, the list of calls and the list of requests are threaded through; the
  deferred \<^verbatim>\<open>cancel\<close> and the deferred \<^verbatim>\<open>Close\<close> calls leave no trace in them.
\<close>

definition run :: "world \<Rightarrow> filesystem \<Rightarrow> runArgs \<Rightarrow> outcome" where
  "run w fs args =
     (if Owner args = [] \<or> Repo args = [] \<or> Pattern args = [] then
        \<lparr>returned = Some ErrMandatoryFlags, files = fs, calls = [], requests = []\<rparr>
      else
        let c = run_ctx args;
            cl = new_client c (Token args);
            ev = [GetLatestRelease c cl (Owner args) (Repo args)];
            sent = (if was_sent (latest_release w c cl (Owner args) (Repo args))
                    then [ReleaseRequest c cl (Owner args) (Repo args)] else [])
        in
          case latest_release w c cl (Owner args) (Repo args) of
            Inl e \<Rightarrow>
              \<lparr>returned = Some (ErrExternal (api_error_text e)), files = fs, calls = ev,
               requests = sent\<rparr>
          | Inr assets \<Rightarrow>
              (case select_asset (Pattern args) assets (0, []) of
                 Inl e \<Rightarrow> \<lparr>returned = Some e, files = fs, calls = ev, requests = sent\<rparr>
               | Inr (i, name) \<Rightarrow>
                   if name = [] then
                     \<lparr>returned = Some ErrEmptyAssetName, files = fs, calls = ev,
                      requests = sent\<rparr>
                   else
                     let dst = filepath_Base (filepath_FromSlash name) in
                     if \<not> os_IsNotExist (os_Stat w fs dst) then
                       \<lparr>returned = Some (ErrAlreadyExists dst), files = fs,
                        calls = ev @ [Stat dst], requests = sent\<rparr>
                     else if i = 0 then
                       \<lparr>returned = Some (ErrNoMatch (Pattern args) (map GetName assets)),
                        files = fs, calls = ev @ [Stat dst], requests = sent\<rparr>
                     else
                       let d = download w c cl fs args i dst
                       in d\<lparr>calls := ev @ [Stat dst] @ calls d,
                            requests := sent @ requests d\<rparr>))"

text \<open>\<^verbatim>\<open>main\<close>: the exit status is 1 when \<^verbatim>\<open>run\<close> returns an error, 0 otherwise.\<close>

definition main :: "world \<Rightarrow> filesystem \<Rightarrow> string \<Rightarrow> flags \<Rightarrow> nat \<times> outcome" where
  "main w fs github_token fl =
     (let out = run w fs (main_args github_token fl)
      in (if returned out = None then 0 else 1, out))"

text \<open>
  Shorthands for the statements below: the answer to the call for the latest release,
  the record of that call and the request it puts on the network, as \<open>run\<close> makes them;
  an asset whose name the pattern matches; the destination of a name (line 88).
\<close>

abbreviation release_of :: "world \<Rightarrow> runArgs \<Rightarrow> api_error + ReleaseAsset list" where
  "release_of w args \<equiv>
     latest_release w (run_ctx args) (new_client (run_ctx args) (Token args))
       (Owner args) (Repo args)"

abbreviation release_call :: "runArgs \<Rightarrow> event" where
  "release_call args \<equiv>
     GetLatestRelease (run_ctx args) (new_client (run_ctx args) (Token args))
       (Owner args) (Repo args)"

abbreviation release_request :: "runArgs \<Rightarrow> request" where
  "release_request args \<equiv>
     ReleaseRequest (run_ctx args) (new_client (run_ctx args) (Token args))
       (Owner args) (Repo args)"

abbreviation matches :: "string \<Rightarrow> ReleaseAsset \<Rightarrow> bool" where
  "matches pattern a \<equiv> path_Match pattern (GetName a) = Inr True"

abbreviation dst_of :: "string \<Rightarrow> string" where
  "dst_of name \<equiv> filepath_Base (filepath_FromSlash name)"


section \<open>Example data\<close>

text \<open>
  A release of \<^verbatim>\<open>acme/widget\<close> with two assets, a world that serves a given asset list for
  that repository, cannot build a request for the owner \<^verbatim>\<open>%zz\<close>, and answers every download
  with a redirect to a URL that returns three bytes, and the arguments for a pattern.
\<close>

definition example_assets :: "ReleaseAsset list" where
  "example_assets =
     [\<lparr>ID = Some 101, Name = Some ''widget_1.2_darwin_amd64.tar.gz''\<rparr>,
      \<lparr>ID = Some 102, Name = Some ''widget_1.2_linux_amd64.tar.gz''\<rparr>]"

definition example_world :: "ReleaseAsset list \<Rightarrow> world" where
  "example_world assets =
     \<lparr>latest_release = (\<lambda>c cl owner repo.
         if owner = ''acme'' \<and> repo = ''widget'' then Inr assets
         else if owner = ''%zz'' then Inl (NotSent ''invalid URL escape'')
         else Inl (Failed ''404 Not Found'')),
      stat_fault = (\<lambda>p. False),
      download_asset = (\<lambda>c cl owner repo i. Inr (None, ''https://example.com/asset'')),
      temp_file = Inr ''/tmp/.github-release-asset-1'',
      new_request = (\<lambda>u. None),
      do_request = (\<lambda>c u. Inr \<lparr>StatusCode = 200, Status = ''200 OK'',
                                  Body = \<lparr>data = ''abc'', fault = None\<rparr>\<rparr>),
      close_fault = None,
      rename_fault = (\<lambda>old new. None)\<rparr>"

definition example_args :: "string \<Rightarrow> runArgs" where
  "example_args pattern =
     \<lparr>Owner = ''acme'', Repo = ''widget'', Pattern = pattern, Timeout = time_Minute,
      Token = []\<rparr>"

section \<open>Properties of the pattern engine\<close>

text \<open>
  Whether a pattern is rejected does not depend on the name it is matched against: the
  syntax of every chunk is checked on every path through \<open>path_Match\<close>.
\<close>

lemma class_ranges_indep:
  "map_sum id snd (class_ranges r chunk m n) = map_sum id snd (class_ranges r' chunk m' n)"
proof (induction r chunk m n arbitrary: m' rule: class_ranges.induct)
  case (1 r chunk match nrange)
  show ?case
  proof (cases "chunk \<noteq> [] \<and> hd chunk = CHR '']'' \<and> 0 < nrange")
    case True
    show ?thesis
      unfolding class_ranges_stop [OF True] by simp
  next
    case stop: False
    show ?thesis
    proof (cases "getEsc chunk")
      case (Inl e)
      show ?thesis
        unfolding class_ranges_esc_error [OF stop Inl] by simp
    next
      case (Inr p)
      obtain lo chunk1 where p: "p = (lo, chunk1)" by (cases p)
      note a = Inr [unfolded p]
      show ?thesis
      proof (cases "hd chunk1 = CHR ''-''")
        case dash: True
        show ?thesis
        proof (cases "getEsc (tl chunk1)")
          case (Inl e)
          show ?thesis
            unfolding class_ranges_hi_error [OF stop a dash Inl] by simp
        next
          case (Inr q)
          obtain hi chunk2 where q: "q = (hi, chunk2)" by (cases q)
          note b = Inr [unfolded q]
          show ?thesis
            unfolding class_ranges_range [OF stop a dash b]
            by (rule "1.IH"(1) [OF stop a refl dash b refl])
        qed
      next
        case nodash: False
        show ?thesis
          unfolding class_ranges_single [OF stop a nodash]
          by (rule "1.IH"(2) [OF stop a refl nodash])
      qed
    qed
  qed
qed

lemma class_ranges_Inl:
  "class_ranges r chunk m n = Inl e \<Longrightarrow> class_ranges r' chunk m' n = Inl e"
  using class_ranges_indep [of r chunk m n r' m']
  by (cases "class_ranges r' chunk m' n") simp_all

lemma class_ranges_Inr:
  assumes "class_ranges r chunk m n = Inr (x, rest)"
  shows "\<exists>x'. class_ranges r' chunk m' n = Inr (x', rest)"
proof (cases "class_ranges r' chunk m' n")
  case (Inl e)
  from class_ranges_Inl [OF this, of r m] assms show ?thesis by simp
next
  case (Inr p)
  with class_ranges_indep [of r chunk m n r' m'] assms show ?thesis
    by (cases p) simp
qed

lemma getEsc_error: "getEsc chunk = Inl e \<Longrightarrow> e = ErrBadPattern"
  by (simp add: getEsc_def Let_def split: if_splits prod.splits)

lemma class_ranges_error: "class_ranges r chunk m n = Inl e \<Longrightarrow> e = ErrBadPattern"
proof (induction r chunk m n rule: class_ranges.induct)
  case (1 r chunk match nrange)
  have stop: "\<not> (chunk \<noteq> [] \<and> hd chunk = CHR '']'' \<and> 0 < nrange)"
  proof
    assume "chunk \<noteq> [] \<and> hd chunk = CHR '']'' \<and> 0 < nrange"
    from class_ranges_stop [OF this, of r match] "1.prems" show False by simp
  qed
  show ?case
  proof (cases "getEsc chunk")
    case (Inl e')
    from "1.prems" [unfolded class_ranges_esc_error [OF stop Inl]] getEsc_error [OF Inl]
    show ?thesis by simp
  next
    case (Inr p)
    obtain lo chunk1 where p: "p = (lo, chunk1)" by (cases p)
    note a = Inr [unfolded p]
    show ?thesis
    proof (cases "hd chunk1 = CHR ''-''")
      case dash: True
      show ?thesis
      proof (cases "getEsc (tl chunk1)")
        case (Inl e')
        from "1.prems" [unfolded class_ranges_hi_error [OF stop a dash Inl]] getEsc_error [OF Inl]
        show ?thesis by simp
      next
        case (Inr q)
        obtain hi chunk2 where q: "q = (hi, chunk2)" by (cases q)
        note b = Inr [unfolded q]
        from "1.IH"(1) [OF stop a refl dash b refl
            "1.prems" [unfolded class_ranges_range [OF stop a dash b]]]
        show ?thesis .
      qed
    next
      case nodash: False
      from "1.IH"(2) [OF stop a refl nodash
          "1.prems" [unfolded class_ranges_single [OF stop a nodash]]]
      show ?thesis .
    qed
  qed
qed

lemma matchChunk_loop_class:
  "matchChunk_loop f (CHR ''['' # cs) s =
     (case class_ranges (if f \<or> s = [] then 0 else fst (DecodeRuneInString s))
             (if cs \<noteq> [] \<and> hd cs = CHR ''^'' then tl cs else cs) False 0 of
        Inl e \<Rightarrow> Inl e
      | Inr (m, c2) \<Rightarrow>
          matchChunk_loop ((f \<or> s = []) \<or> m = (cs \<noteq> [] \<and> hd cs = CHR ''^'')) c2
            (if f \<or> s = [] then s else drop (snd (DecodeRuneInString s)) s))"
  by (simp add: Let_def)

lemma matchChunk_loop_isl:
  "isl (matchChunk_loop f chunk s) = isl (matchChunk_loop f' chunk s')"
proof (induction "length chunk" arbitrary: chunk f s f' s' rule: less_induct)
  case less
  show ?case
  proof (cases chunk)
    case Nil
    then show ?thesis by simp
  next
    case (Cons c cs)
    have IH: "\<And>d g t g' t'. length d \<le> length cs
                \<Longrightarrow> isl (matchChunk_loop g d t) = isl (matchChunk_loop g' d t')"
      using less [unfolded Cons] by simp
    consider (cls) "c = CHR ''[''" | (qm) "c = CHR ''?''" | (esc) "c = CHR 0x5C"
      | (lit) "c \<noteq> CHR ''[''" "c \<noteq> CHR ''?''" "c \<noteq> CHR 0x5C"
      by blast
    then show ?thesis
    proof cases
      case cls
      define c1 where "c1 = (if cs \<noteq> [] \<and> hd cs = CHR ''^'' then tl cs else cs)"
      define r where "r = (if f \<or> s = [] then 0 else fst (DecodeRuneInString s))"
      define r' where "r' = (if f' \<or> s' = [] then 0 else fst (DecodeRuneInString s'))"
      have len1: "length c1 \<le> length cs" by (simp add: c1_def)
      show ?thesis
      proof (cases "class_ranges r c1 False 0")
        case (Inl e)
        from class_ranges_Inl [OF Inl, of r' False] Inl show ?thesis
          unfolding Cons cls matchChunk_loop_class
          by (simp add: c1_def r_def r'_def)
      next
        case (Inr p)
        obtain m c2 where p: "p = (m, c2)" by (cases p)
        from class_ranges_Inr [OF Inr [unfolded p], of r' False]
        obtain m' where R: "class_ranges r' c1 False 0 = Inr (m', c2)" by blast
        from class_ranges_shorter [OF R] len1 have "length c2 \<le> length cs" by simp
        from IH [OF this] Inr [unfolded p] R show ?thesis
          unfolding Cons cls matchChunk_loop_class
          by (simp add: c1_def r_def r'_def)
      qed
    next
      case qm
      from IH [of cs] show ?thesis
        unfolding Cons qm by (simp add: Let_def)
    next
      case esc
      show ?thesis
      proof (cases cs)
        case Nil
        then show ?thesis unfolding Cons esc by (simp add: Let_def)
      next
        case (Cons d ds)
        from IH [of ds] Cons show ?thesis
          unfolding \<open>chunk = c # cs\<close> esc by (simp add: Let_def)
      qed
    next
      case lit
      from IH [of cs] lit show ?thesis
        unfolding Cons by (simp add: Let_def)
    qed
  qed
qed

lemma matchChunk_loop_error: "matchChunk_loop f chunk s = Inl e \<Longrightarrow> e = ErrBadPattern"
proof (induction "length chunk" arbitrary: chunk f s rule: less_induct)
  case less
  show ?case
  proof (cases chunk)
    case Nil
    with less.prems show ?thesis by (simp split: if_splits)
  next
    case (Cons c cs)
    have IH: "e = ErrBadPattern"
      if "length d \<le> length cs" "matchChunk_loop g d t = Inl e" for d g t
      using less.hyps [of d g t] that Cons by simp
    consider (cls) "c = CHR ''[''" | (qm) "c = CHR ''?''" | (esc) "c = CHR 0x5C"
      | (lit) "c \<noteq> CHR ''[''" "c \<noteq> CHR ''?''" "c \<noteq> CHR 0x5C"
      by blast
    then show ?thesis
    proof cases
      case cls
      define c1 where "c1 = (if cs \<noteq> [] \<and> hd cs = CHR ''^'' then tl cs else cs)"
      define r where "r = (if f \<or> s = [] then 0 else fst (DecodeRuneInString s))"
      have len1: "length c1 \<le> length cs" by (simp add: c1_def)
      note step = less.prems [unfolded Cons cls matchChunk_loop_class, folded c1_def r_def]
      show ?thesis
      proof (cases "class_ranges r c1 False 0")
        case (Inl e')
        with step class_ranges_error [OF Inl] show ?thesis by simp
      next
        case (Inr p)
        obtain m c2 where p: "p = (m, c2)" by (cases p)
        from class_ranges_shorter [OF Inr [unfolded p]] len1 have "length c2 \<le> length cs"
          by simp
        from IH [OF this] step Inr [unfolded p] show ?thesis by simp
      qed
    next
      case qm
      from IH [of cs] less.prems [unfolded Cons qm] show ?thesis
        by (simp add: Let_def split: if_splits)
    next
      case esc
      show ?thesis
      proof (cases cs)
        case Nil
        with less.prems [unfolded Cons esc] show ?thesis by (simp add: Let_def)
      next
        case (Cons d ds)
        from IH [of ds] Cons less.prems [unfolded \<open>chunk = c # cs\<close> esc] show ?thesis
          by (simp add: Let_def split: if_splits)
      qed
    next
      case lit
      from IH [of cs] lit less.prems [unfolded Cons] show ?thesis
        by (simp add: Let_def split: if_splits)
    qed
  qed
qed

lemma matchChunk_isl: "isl (matchChunk chunk s) = isl (matchChunk chunk s')"
  unfolding matchChunk_def by (rule matchChunk_loop_isl)

lemma matchChunk_error: "matchChunk chunk s = Inl e \<Longrightarrow> e = ErrBadPattern"
  unfolding matchChunk_def by (rule matchChunk_loop_error)

lemma matchChunk_bad: "matchChunk chunk s = Inl e \<Longrightarrow> matchChunk chunk s' = Inl ErrBadPattern"
proof -
  assume a: "matchChunk chunk s = Inl e"
  with matchChunk_isl [of chunk s s'] obtain e' where b: "matchChunk chunk s' = Inl e'"
    by (cases "matchChunk chunk s'") simp_all
  from matchChunk_error [OF b] b show ?thesis by simp
qed

lemma matchChunk_good: "matchChunk chunk s = Inr p \<Longrightarrow> \<exists>q. matchChunk chunk s' = Inr q"
  using matchChunk_isl [of chunk s s'] by (cases "matchChunk chunk s'") simp_all

lemma star_skip_no_error:
  "matchChunk chunk s = Inr p \<Longrightarrow> star_skip chunk rest name \<noteq> SkipErr e"
proof (induction name)
  case Nil
  show ?case by simp
next
  case (Cons c name)
  from matchChunk_good [OF Cons.prems, of name]
  obtain t ok where "matchChunk chunk name = Inr (t, ok)"
    by auto
  with Cons.IH [OF Cons.prems] show ?case by auto
qed


lemma scan_index_zero: "scan_index inrange p = 0 \<Longrightarrow> p = [] \<or> hd p = CHR ''*''"
  by (cases p) (auto split: if_splits list.splits)

lemma scanChunk_empty_chunk:
  assumes "scanChunk pattern = (star, [], rest)"
  shows "rest = []"
proof -
  define p1 where "p1 = dropWhile (\<lambda>c. c = CHR ''*'') pattern"
  from assms have t: "take (scan_index False p1) p1 = []"
    and r: "rest = drop (scan_index False p1) p1"
    by (simp_all add: scanChunk_def Let_def p1_def)
  have "p1 = [] \<or> hd p1 \<noteq> CHR ''*''"
    unfolding p1_def using hd_dropWhile [of "\<lambda>c. c = CHR ''*''" pattern] by blast
  moreover from t have "scan_index False p1 = 0 \<or> p1 = []" by simp
  ultimately have "p1 = []" using scan_index_zero [of False p1] by blast
  with r show ?thesis by simp
qed

lemma check_rest_step:
  "pattern \<noteq> [] \<Longrightarrow> scanChunk pattern = (star, chunk, rest)
    \<Longrightarrow> check_rest pattern =
          (case matchChunk chunk [] of Inl e \<Rightarrow> Inl e | Inr res \<Rightarrow> check_rest rest)"
  by (subst check_rest.simps) simp

lemma check_rest_Nil: "check_rest [] = Inr False"
  by (subst check_rest.simps) simp


lemma path_Match_Nil: "path_Match [] name = Inr (name = [])"
  by (subst path_Match.simps) simp

lemma path_Match_step:
  "pattern \<noteq> [] \<Longrightarrow> scanChunk pattern = (star, chunk, rest)
    \<Longrightarrow> path_Match pattern name =
         (if star \<and> chunk = [] then Inr (CHR ''/'' \<notin> set name)
          else
            case matchChunk chunk name of
              Inl e \<Rightarrow> Inl e
            | Inr (t, ok) \<Rightarrow>
                if ok \<and> (t = [] \<or> rest \<noteq> []) then path_Match rest t
                else if star then
                  (case star_skip chunk rest name of
                     SkipTo t1 \<Rightarrow> path_Match rest t1
                   | SkipErr e \<Rightarrow> Inl e
                   | SkipNone \<Rightarrow> check_rest rest)
                else check_rest rest)"
  by (subst path_Match.simps) simp

lemma path_Match_isl: "isl (path_Match pattern name) = isl (check_rest pattern)"
proof (induction "length pattern" arbitrary: pattern name rule: less_induct)
  case less
  show ?case
  proof (cases "pattern = []")
    case True
    then show ?thesis by (simp add: path_Match_Nil check_rest_Nil)
  next
    case False
    obtain star chunk rest where sc: "scanChunk pattern = (star, chunk, rest)"
      by (cases "scanChunk pattern") auto
    note IH = less [OF scanChunk_shorter [OF False sc]]
    show ?thesis
    proof (cases "star \<and> chunk = []")
      case True
      with scanChunk_empty_chunk [of pattern star rest] sc have "rest = []" by simp
      with True show ?thesis
        unfolding path_Match_step [OF False sc] check_rest_step [OF False sc]
        by (simp add: matchChunk_def check_rest_Nil)
    next
      case nostar: False
      show ?thesis
      proof (cases "matchChunk chunk name")
        case (Inl e)
        from matchChunk_bad [OF Inl, of "[]"] Inl nostar show ?thesis
          unfolding path_Match_step [OF False sc] check_rest_step [OF False sc]
          by simp
      next
        case (Inr p)
        obtain t ok where p: "p = (t, ok)" by (cases p)
        from matchChunk_good [OF Inr, of "[]"] obtain q where q: "matchChunk chunk [] = Inr q" ..
        have noerr: "star_skip chunk rest name \<noteq> SkipErr e" for e
          by (rule star_skip_no_error [OF Inr])
        show ?thesis
          unfolding path_Match_step [OF False sc] check_rest_step [OF False sc]
          using nostar Inr p q IH noerr
          by (cases "star_skip chunk rest name") auto
      qed
    qed
  qed
qed



lemma path_Match_good_any_name:
  assumes "path_Match pattern name = Inr b"
  shows "\<exists>b'. path_Match pattern name' = Inr b'"
  using assms path_Match_isl [of pattern name] path_Match_isl [of pattern name']
  by (cases "path_Match pattern name'") simp_all

section \<open>Selection and the stages of \<open>run\<close>\<close>

lemma not_matches_False:
  assumes "matches pattern a" and "\<not> matches pattern b"
  shows "path_Match pattern (GetName b) = Inr False"
  using path_Match_good_any_name [OF assms(1), of "GetName b"] assms(2) by auto


lemma select_asset_first:
  "\<forall>b\<in>set pre. path_Match pattern (GetName b) = Inr False \<Longrightarrow> matches pattern a
    \<Longrightarrow> select_asset pattern (pre @ a # post) (i, n) = Inr (GetID a, GetName a)"
  by (induction pre arbitrary: n) simp_all


lemma first_match_split:
  assumes "\<exists>a\<in>set assets. matches pattern a"
  shows "\<exists>pre a post. assets = pre @ a # post \<and> matches pattern a
           \<and> (\<forall>b\<in>set pre. path_Match pattern (GetName b) = Inr False)"
proof -
  from split_list_first_prop [OF assms]
  obtain pre a post where s: "assets = pre @ a # post" "matches pattern a"
      "\<forall>b\<in>set pre. \<not> matches pattern b"
    by blast
  from s(3) not_matches_False [OF s(2)]
  have "\<forall>b\<in>set pre. path_Match pattern (GetName b) = Inr False" by blast
  with s(1,2) show ?thesis by blast
qed

lemma find_matches_split:
  assumes "find (matches pattern) assets = Some a"
  shows "\<exists>pre post. assets = pre @ a # post \<and> matches pattern a
           \<and> (\<forall>b\<in>set pre. path_Match pattern (GetName b) = Inr False)"
proof -
  from assms [unfolded find_Some_iff]
  obtain k where k: "k < length assets" "matches pattern (assets ! k)" "a = assets ! k"
      "\<forall>j<k. \<not> matches pattern (assets ! j)"
    by blast
  have s: "assets = take k assets @ a # drop (Suc k) assets"
    using k(1,3) by (simp add: id_take_nth_drop)
  have "\<forall>b\<in>set (take k assets). \<not> matches pattern b"
  proof
    fix b assume "b \<in> set (take k assets)"
    then obtain j where "j < length (take k assets)" "b = take k assets ! j"
      by (auto simp: in_set_conv_nth)
    with k(4) show "\<not> matches pattern b" by simp
  qed
  with not_matches_False [of pattern a] k(2,3)
  have "\<forall>b\<in>set (take k assets). path_Match pattern (GetName b) = Inr False" by blast
  with s k(2,3) show ?thesis by blast
qed

lemma select_asset_find:
  assumes "find (matches pattern) assets = Some a"
  shows "select_asset pattern assets (i, n) = Inr (GetID a, GetName a)"
proof -
  from find_matches_split [OF assms] obtain pre post where
    "assets = pre @ a # post" "matches pattern a"
    "\<forall>b\<in>set pre. path_Match pattern (GetName b) = Inr False"
    by blast
  with select_asset_first [of pre pattern a post i n] show ?thesis by simp
qed

text \<open>\<open>run\<close> after the release was fetched and the loop has ended without an error.\<close>

lemma run_after_selection:
  assumes "Owner args \<noteq> []" "Repo args \<noteq> []" "Pattern args \<noteq> []"
    and "release_of w args = Inr assets"
    and "select_asset (Pattern args) assets (0, []) = Inr (i, name)"
  shows "run w fs args =
     (if name = [] then
        \<lparr>returned = Some ErrEmptyAssetName, files = fs, calls = [release_call args],
         requests = [release_request args]\<rparr>
      else if \<not> os_IsNotExist (os_Stat w fs (dst_of name)) then
        \<lparr>returned = Some (ErrAlreadyExists (dst_of name)), files = fs,
         calls = [release_call args, Stat (dst_of name)], requests = [release_request args]\<rparr>
      else if i = 0 then
        \<lparr>returned = Some (ErrNoMatch (Pattern args) (map GetName assets)), files = fs,
         calls = [release_call args, Stat (dst_of name)], requests = [release_request args]\<rparr>
      else
        (download w (run_ctx args) (new_client (run_ctx args) (Token args)) fs args i
           (dst_of name))
        \<lparr>calls := [release_call args, Stat (dst_of name)]
           @ calls (download w (run_ctx args) (new_client (run_ctx args) (Token args)) fs args i
               (dst_of name)),
         requests := release_request args
           # requests (download w (run_ctx args) (new_client (run_ctx args) (Token args)) fs
               args i (dst_of name))\<rparr>)"
  using assms by (simp add: run_def Let_def)


text \<open>Evaluations of the pattern engine and of \<^verbatim>\<open>filepath.Base\<close> used below.\<close>

lemmas match_eval =
  path_Match.simps check_rest.simps class_ranges.simps scanChunk_def matchChunk_def
  getEsc_def Let_def RuneError_def

text \<open>
  The model against the library: every row of the table \<^verbatim>\<open>matchTests\<close> in Go's
  \<^verbatim>\<open>path/match_test.go\<close>, with the strings given as UTF-8 bytes where they are not ASCII.
\<close>

lemma path_Match_test_table:
  "path_Match ''abc'' ''abc'' = Inr True"
  "path_Match ''*'' ''abc'' = Inr True"
  "path_Match ''*c'' ''abc'' = Inr True"
  "path_Match ''a*'' ''a'' = Inr True"
  "path_Match ''a*'' ''abc'' = Inr True"
  "path_Match ''a*'' ''ab/c'' = Inr False"
  "path_Match ''a*/b'' ''abc/b'' = Inr True"
  "path_Match ''a*/b'' ''a/c/b'' = Inr False"
  "path_Match ''a*b*c*d*e*/f'' ''axbxcxdxe/f'' = Inr True"
  "path_Match ''a*b*c*d*e*/f'' ''axbxcxdxexxx/f'' = Inr True"
  "path_Match ''a*b*c*d*e*/f'' ''axbxcxdxe/xxx/f'' = Inr False"
  "path_Match ''a*b*c*d*e*/f'' ''axbxcxdxexxx/fff'' = Inr False"
  "path_Match ''a*b?c*x'' ''abxbbxdbxebxczzx'' = Inr True"
  "path_Match ''a*b?c*x'' ''abxbbxdbxebxczzy'' = Inr False"
  "path_Match ''ab[c]'' ''abc'' = Inr True"
  "path_Match ''ab[b-d]'' ''abc'' = Inr True"
  "path_Match ''ab[e-g]'' ''abc'' = Inr False"
  "path_Match ''ab[^c]'' ''abc'' = Inr False"
  "path_Match ''ab[^b-d]'' ''abc'' = Inr False"
  "path_Match ''ab[^e-g]'' ''abc'' = Inr True"
  "path_Match [CHR ''a'', CHR 0x5C, CHR ''*'', CHR ''b''] ''a*b'' = Inr True"
  "path_Match [CHR ''a'', CHR 0x5C, CHR ''*'', CHR ''b''] ''ab'' = Inr False"
  "path_Match ''a?b'' [CHR ''a'', CHR 0xE2, CHR 0x98, CHR 0xBA, CHR ''b''] = Inr True"
  "path_Match ''a[^a]b'' [CHR ''a'', CHR 0xE2, CHR 0x98, CHR 0xBA, CHR ''b''] = Inr True"
  "path_Match ''a???b'' [CHR ''a'', CHR 0xE2, CHR 0x98, CHR 0xBA, CHR ''b''] = Inr False"
  "path_Match ''a[^a][^a][^a]b'' [CHR ''a'', CHR 0xE2, CHR 0x98, CHR 0xBA, CHR ''b''] = Inr False"
  "path_Match [CHR ''['', CHR ''a'', CHR ''-'', CHR 0xCE, CHR 0xB6, CHR '']'', CHR ''*''] [CHR 0xCE, CHR 0xB1] = Inr True"
  "path_Match [CHR ''*'', CHR ''['', CHR ''a'', CHR ''-'', CHR 0xCE, CHR 0xB6, CHR '']''] ''A'' = Inr False"
  "path_Match ''a?b'' ''a/b'' = Inr False"
  "path_Match ''a*b'' ''a/b'' = Inr False"
  "path_Match [CHR ''['', CHR 0x5C, CHR '']'', CHR ''a'', CHR '']''] '']'' = Inr True"
  "path_Match [CHR ''['', CHR 0x5C, CHR ''-'', CHR '']''] ''-'' = Inr True"
  "path_Match [CHR ''['', CHR ''x'', CHR 0x5C, CHR ''-'', CHR '']''] ''x'' = Inr True"
  "path_Match [CHR ''['', CHR ''x'', CHR 0x5C, CHR ''-'', CHR '']''] ''-'' = Inr True"
  "path_Match [CHR ''['', CHR ''x'', CHR 0x5C, CHR ''-'', CHR '']''] ''z'' = Inr False"
  "path_Match [CHR ''['', CHR 0x5C, CHR ''-'', CHR ''x'', CHR '']''] ''x'' = Inr True"
  "path_Match [CHR ''['', CHR 0x5C, CHR ''-'', CHR ''x'', CHR '']''] ''-'' = Inr True"
  "path_Match [CHR ''['', CHR 0x5C, CHR ''-'', CHR ''x'', CHR '']''] ''a'' = Inr False"
  "path_Match ''[]a]'' '']'' = Inl ErrBadPattern"
  "path_Match ''[-]'' ''-'' = Inl ErrBadPattern"
  "path_Match ''[x-]'' ''x'' = Inl ErrBadPattern"
  "path_Match ''[x-]'' ''-'' = Inl ErrBadPattern"
  "path_Match ''[x-]'' ''z'' = Inl ErrBadPattern"
  "path_Match ''[-x]'' ''x'' = Inl ErrBadPattern"
  "path_Match ''[-x]'' ''-'' = Inl ErrBadPattern"
  "path_Match ''[-x]'' ''a'' = Inl ErrBadPattern"
  "path_Match [CHR 0x5C] ''a'' = Inl ErrBadPattern"
  "path_Match ''[a-b-c]'' ''a'' = Inl ErrBadPattern"
  "path_Match ''['' ''a'' = Inl ErrBadPattern"
  "path_Match ''[^'' ''a'' = Inl ErrBadPattern"
  "path_Match ''[^bc'' ''a'' = Inl ErrBadPattern"
  "path_Match ''a['' ''a'' = Inl ErrBadPattern"
  "path_Match ''a['' ''ab'' = Inl ErrBadPattern"
  "path_Match ''a['' ''x'' = Inl ErrBadPattern"
  "path_Match ''a/b['' ''x'' = Inl ErrBadPattern"
  "path_Match ''*x'' ''xxx'' = Inr True"
  by (simp_all add: match_eval)

lemma match_darwin:
  "path_Match ''widget_*_linux_amd64.tar.gz'' ''widget_1.2_darwin_amd64.tar.gz'' = Inr False"
  by (simp add: match_eval)

lemma match_linux:
  "path_Match ''widget_*_linux_amd64.tar.gz'' ''widget_1.2_linux_amd64.tar.gz'' = Inr True"
  by (simp add: match_eval)


lemma match_star_empty: "path_Match ''*'' [] = Inr True"
  by (simp add: match_eval)

lemma match_zip_readme: "path_Match ''*.zip'' ''README.md'' = Inr False"
  by (simp add: match_eval)

lemma match_zip_zip: "path_Match ''*.zip'' ''tool.zip'' = Inr True"
  by (simp add: match_eval)


lemma base_linux:
  "dst_of ''widget_1.2_linux_amd64.tar.gz'' = ''widget_1.2_linux_amd64.tar.gz''"
  by (simp add: filepath_Base_def filepath_FromSlash_def)

lemma example_release [simp]:
  "latest_release (example_world assets) c cl ''acme'' ''widget'' = Inr assets"
  by (simp add: example_world_def)

lemma example_args_simps [simp]:
  "Owner (example_args pattern) = ''acme''" "Repo (example_args pattern) = ''widget''"
  "Pattern (example_args pattern) = pattern" "Token (example_args pattern) = []"
  "Timeout (example_args pattern) = time_Minute"
  by (simp_all add: example_args_def)

lemma minute_positive: "0 <s time_Minute"
  by (simp add: time_Minute_def word_sless_alt)

lemma example_ctx [simp]: "run_ctx (example_args pattern) = Some time_Minute"
  by (simp add: run_ctx_def minute_positive)

lemma stat_absent [simp]: "os_Stat (example_world assets) Map.empty p = StatNotExist"
  by (simp add: os_Stat_def example_world_def)

lemma stat_present [simp]:
  "os_Stat (example_world assets) [p \<mapsto> n] p = StatOk"
  by (simp add: os_Stat_def example_world_def)




lemma download_stage_error:
  assumes "download_asset w c cl (Owner args) (Repo args) i = Inr (rc, u)"
    and "temp_file w = Inr tf"
    and "returned (fetch_body w c (fs(tf \<mapsto> Regular [])) tf rc u) \<noteq> None"
  shows "returned (download w c cl fs args i dst)
          = returned (fetch_body w c (fs(tf \<mapsto> Regular [])) tf rc u)"
    and "files (download w c cl fs args i dst) tf = None"
    and "calls (download w c cl fs args i dst)
          = [DownloadReleaseAsset c cl (Owner args) (Repo args) i, TempFile]
            @ calls (fetch_body w c (fs(tf \<mapsto> Regular [])) tf rc u) @ [Remove tf]"
  using assms by (auto simp: download_def Let_def)





section \<open>Claims\<close>

text \<open>
  C1. For every release whose asset list has at least one name matching the pattern, the
  loop selects the first asset, in the order of the list, whose name matches: the list
  splits into assets that do not match, that asset, and a rest, and whatever the rest is,
  the loop ends with the identifier and the name of that asset. In particular, for the
  pattern \<^verbatim>\<open>widget_*_linux_amd64.tar.gz\<close> and the assets
  \<^verbatim>\<open>widget_1.2_darwin_amd64.tar.gz\<close>, \<^verbatim>\<open>widget_1.2_linux_amd64.tar.gz\<close> the second asset is
  selected, and for owner \<^verbatim>\<open>acme\<close> and repository \<^verbatim>\<open>widget\<close> the run looks for the
  destination \<^verbatim>\<open>widget_1.2_linux_amd64.tar.gz\<close>.
\<close>

theorem first_matching_asset_selected:
  "((\<exists>a\<in>set assets. matches pattern a) \<longrightarrow>
      (\<exists>pre a post. assets = pre @ a # post \<and> matches pattern a
         \<and> (\<forall>b\<in>set pre. path_Match pattern (GetName b) = Inr False)
         \<and> (\<forall>post'. select_asset pattern (pre @ a # post') (0, [])
               = Inr (GetID a, GetName a))))
   \<and> select_asset ''widget_*_linux_amd64.tar.gz''
         [\<lparr>ID = i1, Name = Some ''widget_1.2_darwin_amd64.tar.gz''\<rparr>,
          \<lparr>ID = Some i2, Name = Some ''widget_1.2_linux_amd64.tar.gz''\<rparr>] (0, [])
       = Inr (i2, ''widget_1.2_linux_amd64.tar.gz'')
   \<and> (Owner args = ''acme'' \<and> Repo args = ''widget''
        \<and> Pattern args = ''widget_*_linux_amd64.tar.gz''
        \<and> release_of w args =
            Inr [\<lparr>ID = i1, Name = Some ''widget_1.2_darwin_amd64.tar.gz''\<rparr>,
                 \<lparr>ID = Some i2, Name = Some ''widget_1.2_linux_amd64.tar.gz''\<rparr>]
      \<longrightarrow> take 2 (calls (run w fs args))
            = [release_call args, Stat ''widget_1.2_linux_amd64.tar.gz''])"
proof (intro conjI impI)
  assume "\<exists>a\<in>set assets. matches pattern a"
  from first_match_split [OF this]
  obtain pre a post where s: "assets = pre @ a # post" "matches pattern a"
      "\<forall>b\<in>set pre. path_Match pattern (GetName b) = Inr False"
    by blast
  from select_asset_first [OF s(3) s(2)]
  have "\<forall>post'. select_asset pattern (pre @ a # post') (0, []) = Inr (GetID a, GetName a)"
    by blast
  with s show "\<exists>pre a post. assets = pre @ a # post \<and> matches pattern a
         \<and> (\<forall>b\<in>set pre. path_Match pattern (GetName b) = Inr False)
         \<and> (\<forall>post'. select_asset pattern (pre @ a # post') (0, [])
               = Inr (GetID a, GetName a))"
    by blast
next
  show sel: "select_asset ''widget_*_linux_amd64.tar.gz''
         [\<lparr>ID = i1, Name = Some ''widget_1.2_darwin_amd64.tar.gz''\<rparr>,
          \<lparr>ID = Some i2, Name = Some ''widget_1.2_linux_amd64.tar.gz''\<rparr>] (0, [])
       = Inr (i2, ''widget_1.2_linux_amd64.tar.gz'')"
    by (simp add: GetName_def GetID_def match_darwin match_linux)
  assume a: "Owner args = ''acme'' \<and> Repo args = ''widget''
        \<and> Pattern args = ''widget_*_linux_amd64.tar.gz''
        \<and> release_of w args =
            Inr [\<lparr>ID = i1, Name = Some ''widget_1.2_darwin_amd64.tar.gz''\<rparr>,
                 \<lparr>ID = Some i2, Name = Some ''widget_1.2_linux_amd64.tar.gz''\<rparr>]"
  then have ne: "Owner args \<noteq> []" "Repo args \<noteq> []" "Pattern args \<noteq> []" by auto
  from a sel have "select_asset (Pattern args)
       [\<lparr>ID = i1, Name = Some ''widget_1.2_darwin_amd64.tar.gz''\<rparr>,
        \<lparr>ID = Some i2, Name = Some ''widget_1.2_linux_amd64.tar.gz''\<rparr>] (0, [])
     = Inr (i2, ''widget_1.2_linux_amd64.tar.gz'')"
    by simp
  from run_after_selection [OF ne conjunct2 [OF conjunct2 [OF conjunct2 [OF a]]] this, of fs]
  show "take 2 (calls (run w fs args))
            = [release_call args, Stat ''widget_1.2_linux_amd64.tar.gz'']"
    by (simp add: base_linux)
qed

theorem first_matching_asset_selected_witness:
  "(\<exists>a\<in>set example_assets. matches ''widget_*_linux_amd64.tar.gz'' a)
   \<and> select_asset ''widget_*_linux_amd64.tar.gz'' example_assets (0, [])
       = Inr (102, ''widget_1.2_linux_amd64.tar.gz'')
   \<and> take 2 (calls (run (example_world example_assets) Map.empty
         (example_args ''widget_*_linux_amd64.tar.gz'')))
       = [GetLatestRelease (Some time_Minute) NewClient_nil ''acme'' ''widget'',
          Stat ''widget_1.2_linux_amd64.tar.gz'']"
proof -
  let ?P = "''widget_*_linux_amd64.tar.gz''"
  note inst = first_matching_asset_selected [of example_assets ?P "Some 101" 102
      "example_args ?P" "example_world example_assets" Map.empty]
  have h: "\<exists>a\<in>set example_assets. matches ?P a"
    by (simp add: example_assets_def GetName_def match_linux)
  from inst h obtain pre a post where s: "example_assets = pre @ a # post" "matches ?P a"
      "\<forall>b\<in>set pre. path_Match ?P (GetName b) = Inr False"
      "\<forall>post'. select_asset ?P (pre @ a # post') (0, []) = Inr (GetID a, GetName a)"
    by blast
  from s(1,2) have a: "a = \<lparr>ID = Some 102, Name = Some ''widget_1.2_linux_amd64.tar.gz''\<rparr>"
    by (cases pre; cases "tl pre")
       (auto simp: example_assets_def GetName_def match_darwin)
  from s(4) s(1) have "select_asset ?P example_assets (0, []) = Inr (GetID a, GetName a)"
    by metis
  with a have sel: "select_asset ?P example_assets (0, [])
      = Inr (102, ''widget_1.2_linux_amd64.tar.gz'')"
    by (simp add: GetID_def GetName_def)
  have "take 2 (calls (run (example_world example_assets) Map.empty (example_args ?P)))
       = [release_call (example_args ?P), Stat ''widget_1.2_linux_amd64.tar.gz'']"
    by (rule inst [THEN conjunct2, THEN conjunct2, THEN mp]) (simp add: example_assets_def)
  with h sel show ?thesis by (simp add: new_client_def)
qed

text \<open>
  C2 against the code: with the pattern \<^verbatim>\<open>*.zip\<close> and a release whose only asset is
  \<^verbatim>\<open>README.md\<close> nothing matches. In an empty directory the run fails with the list of the
  asset names; in a directory that has a file \<^verbatim>\<open>README.md\<close> it fails with "file
  "README.md" already exists", because the check for the destination (lines 88 to 91)
  runs on the name of the last asset the loop looked at, before the check for a match
  (line 92).
\<close>

theorem no_match_checks_last_name_first:
  "path_Match ''*.zip'' ''README.md'' = Inr False
   \<and> returned (run (example_world [\<lparr>ID = Some 7, Name = Some ''README.md''\<rparr>]) Map.empty
         (example_args ''*.zip''))
       = Some (ErrNoMatch ''*.zip'' [''README.md''])
   \<and> returned (run (example_world [\<lparr>ID = Some 7, Name = Some ''README.md''\<rparr>])
         [''README.md'' \<mapsto> Regular ''text''] (example_args ''*.zip''))
       = Some (ErrAlreadyExists ''README.md'')"
  by (simp add: GetName_def match_zip_readme run_def Let_def filepath_Base_def
      filepath_FromSlash_def os_IsNotExist_def)

text \<open>
  C3, as the code has it. When the first asset whose name matches the pattern has a
  non-empty name and \<^verbatim>\<open>os.Stat\<close> of the destination, the last element of that name, does
  not report that the file is absent (the file exists, or the call fails for another
  reason), the run fails with "file ... already exists". The only call to the network
  before that is the request for the release: no content of the asset is asked for, and
  the file system is as it was.
\<close>

theorem existing_destination_stops_the_run:
  assumes "Owner args \<noteq> []" and "Repo args \<noteq> []" and "Pattern args \<noteq> []"
    and "release_of w args = Inr assets"
    and "find (matches (Pattern args)) assets = Some a"
    and "GetName a \<noteq> []"
    and "os_Stat w fs (dst_of (GetName a)) \<noteq> StatNotExist"
  shows "returned (run w fs args) = Some (ErrAlreadyExists (dst_of (GetName a)))
    \<and> calls (run w fs args) = [release_call args, Stat (dst_of (GetName a))]
    \<and> filter is_content_request (calls (run w fs args)) = []
    \<and> requests (run w fs args) = [release_request args]
    \<and> files (run w fs args) = fs"
proof -
  from select_asset_find [OF assms(5)]
  have "select_asset (Pattern args) assets (0, []) = Inr (GetID a, GetName a)" .
  from run_after_selection [OF assms(1-4) this, of fs] assms(6,7) show ?thesis
    by (simp add: os_IsNotExist_def)
qed

theorem existing_destination_stops_the_run_witness:
  "find (matches ''widget_*_linux_amd64.tar.gz'') example_assets
     = Some \<lparr>ID = Some 102, Name = Some ''widget_1.2_linux_amd64.tar.gz''\<rparr>
   \<and> returned (run (example_world example_assets)
         [''widget_1.2_linux_amd64.tar.gz'' \<mapsto> Regular ''old'']
         (example_args ''widget_*_linux_amd64.tar.gz''))
       = Some (ErrAlreadyExists ''widget_1.2_linux_amd64.tar.gz'')
   \<and> files (run (example_world example_assets)
         [''widget_1.2_linux_amd64.tar.gz'' \<mapsto> Regular ''old'']
         (example_args ''widget_*_linux_amd64.tar.gz'')) ''widget_1.2_linux_amd64.tar.gz''
       = Some (Regular ''old'')
   \<and> calls (run (example_world example_assets)
         [''widget_1.2_linux_amd64.tar.gz'' \<mapsto> Regular ''old'']
         (example_args ''widget_*_linux_amd64.tar.gz''))
       = [GetLatestRelease (Some time_Minute) NewClient_nil ''acme'' ''widget'',
          Stat ''widget_1.2_linux_amd64.tar.gz'']"
proof -
  let ?P = "''widget_*_linux_amd64.tar.gz''"
  let ?a = "\<lparr>ID = Some 102, Name = Some ''widget_1.2_linux_amd64.tar.gz''\<rparr>"
  have f: "find (matches ?P) example_assets = Some ?a"
    by (simp add: example_assets_def GetName_def match_darwin match_linux)
  from existing_destination_stops_the_run [of "example_args ?P" "example_world example_assets"
      example_assets ?a "[''widget_1.2_linux_amd64.tar.gz'' \<mapsto> Regular ''old'']"] f
  show ?thesis
    by (simp add: GetName_def new_client_def base_linux)
qed

text \<open>
  The claim C3 as it is written fails for a matching asset whose name is empty: the
  pattern \<^verbatim>\<open>*\<close> matches the empty name, the last element of the empty name is \<^verbatim>\<open>.\<close>,
  which exists, and the run fails with "empty asset name", not with "file already exists".
\<close>

theorem existing_destination_counterexample:
  "find (matches ''*'') [\<lparr>ID = Some 5, Name = Some []\<rparr>] = Some \<lparr>ID = Some 5, Name = Some []\<rparr>
   \<and> dst_of (GetName \<lparr>ID = Some 5, Name = Some []\<rparr>) = ''.''
   \<and> os_Stat (example_world [\<lparr>ID = Some 5, Name = Some []\<rparr>]) [''.'' \<mapsto> Directory] ''.'' = StatOk
   \<and> returned (run (example_world [\<lparr>ID = Some 5, Name = Some []\<rparr>]) [''.'' \<mapsto> Directory]
         (example_args ''*''))
       = Some ErrEmptyAssetName"
  by (simp add: GetName_def GetID_def match_star_empty filepath_Base_def filepath_FromSlash_def
      run_def Let_def)







text \<open>
  C6, as the code has it. In the \<^verbatim>\<open>switch\<close> of lines 109 to 134, when the API gave no
  reader but a redirect URL that is not empty, a GET request for that URL is built. When
  it cannot be built the run fails with that error and nothing is sent. Otherwise exactly
  one request is sent, with the context of the run: when it fails the run fails with its
  error; when the status code is any other than 200, other codes of the class 2xx
  included, the run fails with "invalid status" and the staging file is not written; when
  it is 200 the body is appended to the staging file, and the run fails only if the copy
  does. With neither a reader nor a non-empty URL the run fails with "cannot download
  asset release, don't have sensible link for that" and sends nothing. An error of this
  stage is the error of \<open>download\<close>, which removes the staging file, and of \<open>run\<close>.
\<close>

theorem redirect_is_fetched_with_get:
  "(u \<noteq> [] \<and> new_request w u = None \<longrightarrow>
      calls (fetch_body w c fs tf None u) = [HttpGet c u]
      \<and> requests (fetch_body w c fs tf None u) = [GetRequest c u]
      \<and> (\<forall>e. do_request w c u = Inl e \<longrightarrow>
            returned (fetch_body w c fs tf None u) = Some (ErrExternal e)
            \<and> files (fetch_body w c fs tf None u) = fs)
      \<and> (\<forall>r. do_request w c u = Inr r \<and> StatusCode r \<noteq> 200 \<longrightarrow>
            returned (fetch_body w c fs tf None u) = Some (ErrInvalidStatus (Status r))
            \<and> files (fetch_body w c fs tf None u) = fs)
      \<and> (\<forall>r. do_request w c u = Inr r \<and> StatusCode r = 200 \<longrightarrow>
            files (fetch_body w c fs tf None u) = write_file fs tf (data (Body r))
            \<and> returned (fetch_body w c fs tf None u) = map_option ErrExternal (fault (Body r))))
   \<and> (\<forall>e. u \<noteq> [] \<and> new_request w u = Some e \<longrightarrow>
        fetch_body w c fs tf None u
          = \<lparr>returned = Some (ErrExternal e), files = fs, calls = [], requests = []\<rparr>)
   \<and> (u = [] \<longrightarrow>
        fetch_body w c fs tf None u
          = \<lparr>returned = Some ErrNoLink, files = fs, calls = [], requests = []\<rparr>)
   \<and> (download_asset w c cl (Owner args) (Repo args) i = Inr (None, u) \<and> temp_file w = Inr tf
        \<and> returned (fetch_body w c (fs(tf \<mapsto> Regular [])) tf None u) \<noteq> None \<longrightarrow>
        returned (download w c cl fs args i dst)
          = returned (fetch_body w c (fs(tf \<mapsto> Regular [])) tf None u)
        \<and> files (download w c cl fs args i dst) tf = None
        \<and> calls (download w c cl fs args i dst)
          = [DownloadReleaseAsset c cl (Owner args) (Repo args) i, TempFile]
            @ calls (fetch_body w c (fs(tf \<mapsto> Regular [])) tf None u) @ [Remove tf])
   \<and> (Owner args \<noteq> [] \<and> Repo args \<noteq> [] \<and> Pattern args \<noteq> []
        \<and> release_of w args = Inr assets
        \<and> select_asset (Pattern args) assets (0, []) = Inr (i, name) \<and> name \<noteq> []
        \<and> os_Stat w fs (dst_of name) = StatNotExist \<and> i \<noteq> 0 \<longrightarrow>
        returned (run w fs args)
          = returned (download w (run_ctx args) (new_client (run_ctx args) (Token args)) fs args i
              (dst_of name)))"
proof -
  have get: "u \<noteq> [] \<and> new_request w u = None \<longrightarrow>
      calls (fetch_body w c fs tf None u) = [HttpGet c u]
      \<and> requests (fetch_body w c fs tf None u) = [GetRequest c u]
      \<and> (\<forall>e. do_request w c u = Inl e \<longrightarrow>
            returned (fetch_body w c fs tf None u) = Some (ErrExternal e)
            \<and> files (fetch_body w c fs tf None u) = fs)
      \<and> (\<forall>r. do_request w c u = Inr r \<and> StatusCode r \<noteq> 200 \<longrightarrow>
            returned (fetch_body w c fs tf None u) = Some (ErrInvalidStatus (Status r))
            \<and> files (fetch_body w c fs tf None u) = fs)
      \<and> (\<forall>r. do_request w c u = Inr r \<and> StatusCode r = 200 \<longrightarrow>
            files (fetch_body w c fs tf None u) = write_file fs tf (data (Body r))
            \<and> returned (fetch_body w c fs tf None u) = map_option ErrExternal (fault (Body r)))"
    by (cases "do_request w c u") (simp_all add: fetch_body_def)
  have unusable: "\<forall>e. u \<noteq> [] \<and> new_request w u = Some e \<longrightarrow>
      fetch_body w c fs tf None u
        = \<lparr>returned = Some (ErrExternal e), files = fs, calls = [], requests = []\<rparr>"
    by (simp add: fetch_body_def)
  have nolink: "u = [] \<longrightarrow>
      fetch_body w c fs tf None u
          = \<lparr>returned = Some ErrNoLink, files = fs, calls = [], requests = []\<rparr>"
    by (simp add: fetch_body_def)
  have stage: "download_asset w c cl (Owner args) (Repo args) i = Inr (None, u)
        \<and> temp_file w = Inr tf
        \<and> returned (fetch_body w c (fs(tf \<mapsto> Regular [])) tf None u) \<noteq> None \<longrightarrow>
        returned (download w c cl fs args i dst)
          = returned (fetch_body w c (fs(tf \<mapsto> Regular [])) tf None u)
        \<and> files (download w c cl fs args i dst) tf = None
        \<and> calls (download w c cl fs args i dst)
          = [DownloadReleaseAsset c cl (Owner args) (Repo args) i, TempFile]
            @ calls (fetch_body w c (fs(tf \<mapsto> Regular [])) tf None u) @ [Remove tf]"
    using download_stage_error [of w c cl args i None u tf fs dst] by blast
  have whole: "Owner args \<noteq> [] \<and> Repo args \<noteq> [] \<and> Pattern args \<noteq> []
        \<and> release_of w args = Inr assets
        \<and> select_asset (Pattern args) assets (0, []) = Inr (i, name) \<and> name \<noteq> []
        \<and> os_Stat w fs (dst_of name) = StatNotExist \<and> i \<noteq> 0 \<longrightarrow>
        returned (run w fs args)
          = returned (download w (run_ctx args) (new_client (run_ctx args) (Token args)) fs args i
              (dst_of name))"
    using run_after_selection [of args w assets i name fs]
    by (simp add: os_IsNotExist_def)
  from get unusable nolink stage whole show ?thesis by blast
qed

theorem redirect_is_fetched_with_get_witness:
  "calls (fetch_body (example_world example_assets) (Some time_Minute)
           [''/tmp/.github-release-asset-1'' \<mapsto> Regular []] ''/tmp/.github-release-asset-1'' None
           ''https://example.com/asset'')
     = [HttpGet (Some time_Minute) ''https://example.com/asset'']
   \<and> files (fetch_body (example_world example_assets) (Some time_Minute)
           [''/tmp/.github-release-asset-1'' \<mapsto> Regular []] ''/tmp/.github-release-asset-1'' None
           ''https://example.com/asset'') ''/tmp/.github-release-asset-1''
     = Some (Regular ''abc'')
   \<and> returned (fetch_body
           ((example_world example_assets)\<lparr>do_request := \<lambda>c u. Inr \<lparr>StatusCode = 404,
               Status = ''404 Not Found'', Body = \<lparr>data = ''no'', fault = None\<rparr>\<rparr>\<rparr>)
           (Some time_Minute) [''/tmp/.github-release-asset-1'' \<mapsto> Regular []]
           ''/tmp/.github-release-asset-1'' None ''https://example.com/asset'')
     = Some (ErrInvalidStatus ''404 Not Found'')
   \<and> returned (fetch_body (example_world example_assets) (Some time_Minute)
           [''/tmp/.github-release-asset-1'' \<mapsto> Regular []] ''/tmp/.github-release-asset-1'' None [])
     = Some ErrNoLink
   \<and> returned (run ((example_world example_assets)\<lparr>do_request := \<lambda>c u. Inr \<lparr>StatusCode = 404,
               Status = ''404 Not Found'', Body = \<lparr>data = ''no'', fault = None\<rparr>\<rparr>\<rparr>)
           Map.empty (example_args ''widget_*_linux_amd64.tar.gz''))
     = Some (ErrInvalidStatus ''404 Not Found'')
   \<and> returned (fetch_body
           ((example_world example_assets)\<lparr>new_request := \<lambda>u. Some ''missing protocol scheme''\<rparr>)
           (Some time_Minute) [''/tmp/.github-release-asset-1'' \<mapsto> Regular []]
           ''/tmp/.github-release-asset-1'' None '':'')
     = Some (ErrExternal ''missing protocol scheme'')
   \<and> requests (fetch_body
           ((example_world example_assets)\<lparr>new_request := \<lambda>u. Some ''missing protocol scheme''\<rparr>)
           (Some time_Minute) [''/tmp/.github-release-asset-1'' \<mapsto> Regular []]
           ''/tmp/.github-release-asset-1'' None '':'')
     = []"
proof -
  let ?tf = "''/tmp/.github-release-asset-1''"
  let ?wbad = "(example_world example_assets)\<lparr>new_request := \<lambda>u. Some ''missing protocol scheme''\<rparr>"
  let ?u = "''https://example.com/asset''"
  let ?P = "''widget_*_linux_amd64.tar.gz''"
  let ?w = "example_world example_assets"
  let ?w404 = "(example_world example_assets)\<lparr>do_request := \<lambda>c u. Inr \<lparr>StatusCode = 404,
               Status = ''404 Not Found'', Body = \<lparr>data = ''no'', fault = None\<rparr>\<rparr>\<rparr>"
  let ?c = "Some time_Minute"
  have sel: "select_asset ?P example_assets (0, []) = Inr (102, ''widget_1.2_linux_amd64.tar.gz'')"
    by (simp add: example_assets_def GetName_def GetID_def match_darwin match_linux)
  note ok = redirect_is_fetched_with_get [where u = "?u" and w = "?w" and c = "?c" and fs = "[?tf \<mapsto> Regular []]"
      and tf = "?tf" and cl = NewClient_nil and args = "example_args ?P" and i = 102
      and dst = "''widget_1.2_linux_amd64.tar.gz''" and assets = example_assets
      and name = "''widget_1.2_linux_amd64.tar.gz''"]
  note bad = redirect_is_fetched_with_get [where u = "?u" and w = "?w404" and c = "?c" and fs = "Map.empty"
      and tf = "?tf" and cl = NewClient_nil and args = "example_args ?P" and i = 102
      and dst = "''widget_1.2_linux_amd64.tar.gz''" and assets = example_assets
      and name = "''widget_1.2_linux_amd64.tar.gz''"]
  note bad2 = redirect_is_fetched_with_get [where u = "?u" and w = "?w404" and c = "?c" and fs = "[?tf \<mapsto> Regular []]"
      and tf = "?tf" and cl = NewClient_nil and args = "example_args ?P" and i = 102
      and dst = "''widget_1.2_linux_amd64.tar.gz''" and assets = example_assets
      and name = "''widget_1.2_linux_amd64.tar.gz''"]
  note nolink = redirect_is_fetched_with_get [where u = "[]" and w = "?w" and c = "?c" and fs = "[?tf \<mapsto> Regular []]"
      and tf = "?tf" and cl = NewClient_nil and args = "example_args ?P" and i = 102
      and dst = "''widget_1.2_linux_amd64.tar.gz''" and assets = example_assets
      and name = "''widget_1.2_linux_amd64.tar.gz''"]
  from ok have 1: "calls (fetch_body ?w ?c [?tf \<mapsto> Regular []] ?tf None ?u) = [HttpGet ?c ?u]"
    and 2: "files (fetch_body ?w ?c [?tf \<mapsto> Regular []] ?tf None ?u) ?tf = Some (Regular ''abc'')"
    by (simp_all add: example_world_def write_file_def)
  from bad2 have 3: "returned (fetch_body ?w404 ?c [?tf \<mapsto> Regular []] ?tf None ?u)
      = Some (ErrInvalidStatus ''404 Not Found'')"
    by (simp add: example_world_def)
  from nolink have 4: "returned (fetch_body ?w ?c [?tf \<mapsto> Regular []] ?tf None []) = Some ErrNoLink"
    by simp
  have st: "os_Stat ?w404 Map.empty ''widget_1.2_linux_amd64.tar.gz'' = StatNotExist"
    by (simp add: os_Stat_def example_world_def)
  from bad sel st 3 have 5: "returned (run ?w404 Map.empty (example_args ?P))
      = Some (ErrInvalidStatus ''404 Not Found'')"
    by (simp add: example_world_def base_linux new_client_def)
  note unbuilt = redirect_is_fetched_with_get [where u = "'':''" and w = "?wbad" and c = "?c"
      and fs = "[?tf \<mapsto> Regular []]" and tf = "?tf" and cl = NewClient_nil
      and args = "example_args ?P" and i = 102
      and dst = "''widget_1.2_linux_amd64.tar.gz''" and assets = example_assets
      and name = "''widget_1.2_linux_amd64.tar.gz''"]
  have nr: "'':'' \<noteq> [] \<and> new_request ?wbad '':'' = Some ''missing protocol scheme''"
    by (simp add: example_world_def)
  from unbuilt nr have "fetch_body ?wbad ?c [?tf \<mapsto> Regular []] ?tf None '':''
      = \<lparr>returned = Some (ErrExternal ''missing protocol scheme''),
         files = [?tf \<mapsto> Regular []], calls = [], requests = []\<rparr>"
    by blast
  then have 6: "returned (fetch_body ?wbad ?c [?tf \<mapsto> Regular []] ?tf None '':'')
      = Some (ErrExternal ''missing protocol scheme'')"
    and 7: "requests (fetch_body ?wbad ?c [?tf \<mapsto> Regular []] ?tf None '':'') = []"
    by simp_all
  from 1 2 3 4 5 6 7 show ?thesis by blast
qed

text \<open>
  The claim C6 as it is written fails for a status of the class 2xx other than 200: when
  the GET to the redirect URL is answered with 204 No Content, the run fails with
  "invalid status: 204 No Content", the staging file stays empty and no destination file
  is made.
\<close>

theorem redirect_status_counterexample:
  "returned (fetch_body
       ((example_world example_assets)\<lparr>do_request := \<lambda>c u. Inr \<lparr>StatusCode = 204,
           Status = ''204 No Content'', Body = \<lparr>data = [], fault = None\<rparr>\<rparr>\<rparr>)
       (Some time_Minute) [''/tmp/.github-release-asset-1'' \<mapsto> Regular []]
       ''/tmp/.github-release-asset-1'' None ''https://example.com/asset'')
     = Some (ErrInvalidStatus ''204 No Content'')
   \<and> files (fetch_body
       ((example_world example_assets)\<lparr>do_request := \<lambda>c u. Inr \<lparr>StatusCode = 204,
           Status = ''204 No Content'', Body = \<lparr>data = [], fault = None\<rparr>\<rparr>\<rparr>)
       (Some time_Minute) [''/tmp/.github-release-asset-1'' \<mapsto> Regular []]
       ''/tmp/.github-release-asset-1'' None ''https://example.com/asset'')
       ''/tmp/.github-release-asset-1''
     = Some (Regular [])
   \<and> returned (run
       ((example_world example_assets)\<lparr>do_request := \<lambda>c u. Inr \<lparr>StatusCode = 204,
           Status = ''204 No Content'', Body = \<lparr>data = [], fault = None\<rparr>\<rparr>\<rparr>)
       Map.empty (example_args ''widget_*_linux_amd64.tar.gz''))
     = Some (ErrInvalidStatus ''204 No Content'')
   \<and> files (run
       ((example_world example_assets)\<lparr>do_request := \<lambda>c u. Inr \<lparr>StatusCode = 204,
           Status = ''204 No Content'', Body = \<lparr>data = [], fault = None\<rparr>\<rparr>\<rparr>)
       Map.empty (example_args ''widget_*_linux_amd64.tar.gz''))
       ''widget_1.2_linux_amd64.tar.gz''
     = None"
  by (simp add: run_def download_def fetch_body_def Let_def example_world_def
      example_assets_def GetName_def GetID_def match_darwin match_linux base_linux
      os_Stat_def os_IsNotExist_def new_client_def)




text \<open>
  C8. Without a timeout flag the context of the run carries a deadline of one minute;
  with a timeout of zero no deadline is attached. The context is the one the request for
  the latest release is made with.
\<close>

theorem default_timeout_and_zero:
  "(flag_timeout fl = None \<longrightarrow> run_ctx (main_args token fl) = Some time_Minute)
   \<and> (flag_timeout fl = Some 0 \<longrightarrow> run_ctx (main_args token fl) = None)
   \<and> (Timeout args = 0 \<longrightarrow> run_ctx args = None)
   \<and> (Owner args \<noteq> [] \<and> Repo args \<noteq> [] \<and> Pattern args \<noteq> [] \<longrightarrow>
        hd (calls (run w fs args))
          = GetLatestRelease (run_ctx args) (new_client (run_ctx args) (Token args))
              (Owner args) (Repo args))"
proof (intro conjI impI)
  assume "flag_timeout fl = None"
  then show "run_ctx (main_args token fl) = Some time_Minute"
    by (simp add: run_ctx_def main_args_def autoflags_Parse_def minute_positive)
next
  assume "flag_timeout fl = Some 0"
  then show "run_ctx (main_args token fl) = None"
    by (simp add: run_ctx_def main_args_def autoflags_Parse_def)
next
  assume "Timeout args = 0"
  then show "run_ctx args = None" by (simp add: run_ctx_def)
next
  assume "Owner args \<noteq> [] \<and> Repo args \<noteq> [] \<and> Pattern args \<noteq> []"
  then show "hd (calls (run w fs args)) = release_call args"
    by (simp add: run_def Let_def split: sum.splits prod.splits)
qed

theorem default_timeout_and_zero_witness:
  "run_ctx (main_args [] \<lparr>flag_owner = Some ''acme'', flag_repo = Some ''widget'',
       flag_pattern = Some ''*'', flag_timeout = None\<rparr>) = Some 60000000000
   \<and> run_ctx (main_args [] \<lparr>flag_owner = Some ''acme'', flag_repo = Some ''widget'',
       flag_pattern = Some ''*'', flag_timeout = Some 0\<rparr>) = None
   \<and> run_ctx ((example_args ''*'')\<lparr>Timeout := 0\<rparr>) = None
   \<and> hd (calls (run (example_world example_assets) Map.empty ((example_args ''*'')\<lparr>Timeout := 0\<rparr>)))
       = GetLatestRelease None NewClient_nil ''acme'' ''widget''"
  using default_timeout_and_zero [of
      "\<lparr>flag_owner = Some ''acme'', flag_repo = Some ''widget'',
        flag_pattern = Some ''*'', flag_timeout = None\<rparr>" "[]"
      "(example_args ''*'')\<lparr>Timeout := 0\<rparr>" "example_world example_assets" Map.empty]
    default_timeout_and_zero [of
      "\<lparr>flag_owner = Some ''acme'', flag_repo = Some ''widget'',
        flag_pattern = Some ''*'', flag_timeout = Some 0\<rparr>" "[]"
      "(example_args ''*'')\<lparr>Timeout := 0\<rparr>" "example_world example_assets" Map.empty]
  by (simp add: time_Minute_def new_client_def)

text \<open>
  C9. When owner, repository or pattern is the empty string, \<open>run\<close> returns the error
  "one or more mandatory flags missing" without any call to the outside: nothing is
  requested from the API and the file system is as before. \<open>main\<close> then exits with
  status 1; a flag that is not given leaves its field empty.
\<close>

theorem missing_mandatory_flag_fails_first:
  "(Owner args = [] \<or> Repo args = [] \<or> Pattern args = [] \<longrightarrow>
      returned (run w fs args) = Some ErrMandatoryFlags
      \<and> calls (run w fs args) = [] \<and> requests (run w fs args) = []
      \<and> files (run w fs args) = fs)
   \<and> (flag_owner fl = None \<or> flag_repo fl = None \<or> flag_pattern fl = None \<longrightarrow>
      main w fs token fl
        = (1, \<lparr>returned = Some ErrMandatoryFlags, files = fs, calls = [],
                requests = []\<rparr>))"
  by (auto simp: run_def main_def main_args_def autoflags_Parse_def Let_def)

theorem missing_mandatory_flag_fails_first_witness:
  "Repo ((example_args ''*'')\<lparr>Repo := []\<rparr>) = []
   \<and> returned (run (example_world example_assets) Map.empty ((example_args ''*'')\<lparr>Repo := []\<rparr>))
       = Some ErrMandatoryFlags
   \<and> calls (run (example_world example_assets) Map.empty ((example_args ''*'')\<lparr>Repo := []\<rparr>)) = []
   \<and> fst (main (example_world example_assets) Map.empty []
        \<lparr>flag_owner = Some ''acme'', flag_repo = Some ''widget'', flag_pattern = None,
         flag_timeout = None\<rparr>) = 1"
  using missing_mandatory_flag_fails_first [of "(example_args ''*'')\<lparr>Repo := []\<rparr>"
      "example_world example_assets" Map.empty
      "\<lparr>flag_owner = Some ''acme'', flag_repo = Some ''widget'', flag_pattern = None,
         flag_timeout = None\<rparr>" "[]"]
  by simp

text \<open>
  C10. The identifier 0 is a second sign of "nothing matched". When the first asset whose
  name matches the pattern has identifier 0 and a non-empty name, and no file of the
  destination name exists, the run does not ask for the asset: it fails with the error
  "no assets matching pattern", which lists the names of all assets, after the request
  for the release and the look at the destination. An asset whose identifier is missing
  from the API's answer reads as identifier 0.
\<close>

theorem zero_identifier_reads_as_no_match:
  assumes "Owner args \<noteq> []" and "Repo args \<noteq> []" and "Pattern args \<noteq> []"
    and "release_of w args = Inr assets"
    and "find (matches (Pattern args)) assets = Some a"
    and "GetID a = 0" and "GetName a \<noteq> []"
    and "os_Stat w fs (dst_of (GetName a)) = StatNotExist"
  shows "returned (run w fs args) = Some (ErrNoMatch (Pattern args) (map GetName assets))
    \<and> calls (run w fs args) = [release_call args, Stat (dst_of (GetName a))]
    \<and> filter is_content_request (calls (run w fs args)) = []
    \<and> requests (run w fs args) = [release_request args]
    \<and> files (run w fs args) = fs"
proof -
  from select_asset_find [OF assms(5)] assms(6)
  have "select_asset (Pattern args) assets (0, []) = Inr (0, GetName a)" by simp
  from run_after_selection [OF assms(1-4) this, of fs] assms(7,8) show ?thesis
    by (simp add: os_IsNotExist_def)
qed

theorem zero_identifier_reads_as_no_match_witness:
  "find (matches ''*.zip'') [\<lparr>ID = Some 7, Name = Some ''README.md''\<rparr>,
                             \<lparr>ID = None, Name = Some ''tool.zip''\<rparr>]
     = Some \<lparr>ID = None, Name = Some ''tool.zip''\<rparr>
   \<and> GetID \<lparr>ID = None, Name = Some ''tool.zip''\<rparr> = 0
   \<and> returned (run (example_world [\<lparr>ID = Some 7, Name = Some ''README.md''\<rparr>,
                                     \<lparr>ID = None, Name = Some ''tool.zip''\<rparr>])
         Map.empty (example_args ''*.zip''))
       = Some (ErrNoMatch ''*.zip'' [''README.md'', ''tool.zip''])
   \<and> calls (run (example_world [\<lparr>ID = Some 7, Name = Some ''README.md''\<rparr>,
                                  \<lparr>ID = None, Name = Some ''tool.zip''\<rparr>])
         Map.empty (example_args ''*.zip''))
       = [GetLatestRelease (Some time_Minute) NewClient_nil ''acme'' ''widget'',
          Stat ''tool.zip'']"
proof -
  let ?as = "[\<lparr>ID = Some 7, Name = Some ''README.md''\<rparr>, \<lparr>ID = None, Name = Some ''tool.zip''\<rparr>]"
  have f: "find (matches ''*.zip'') ?as = Some \<lparr>ID = None, Name = Some ''tool.zip''\<rparr>"
    by (simp add: GetName_def match_zip_readme match_zip_zip)
  have b: "dst_of ''tool.zip'' = ''tool.zip''"
    by (simp add: filepath_Base_def filepath_FromSlash_def)
  from zero_identifier_reads_as_no_match [of "example_args ''*.zip''" "example_world ?as" ?as
      "\<lparr>ID = None, Name = Some ''tool.zip''\<rparr>" Map.empty] f b
  show ?thesis
    by (simp add: GetID_def GetName_def new_client_def)
qed

end
